theory Spec2Isabelle
  imports Complex_Main "HOL-Library.Sublist" "HOL-Library.Multiset" "HOL-Library.Word"
begin

unbundle bit_operations_syntax

section \<open>Strings\<close>

text \<open>
  Go strings are byte sequences; \<open>string\<close> (a list of 8-bit characters) models them
  byte for byte, and \<open>length\<close> is Go's \<open>len\<close>. A Go \<open>error\<close> is modelled by its
  message.
\<close>

type_synonym error = string

text \<open>\<open>strings.Index\<close> and \<open>strings.LastIndex\<close>: \<open>None\<close> is Go's \<open>-1\<close>.\<close>

fun Index :: "string \<Rightarrow> string \<Rightarrow> nat option" where
  "Index [] sub = (if sub = [] then Some 0 else None)"
| "Index (c # cs) sub =
     (if prefix sub (c # cs) then Some 0 else map_option Suc (Index cs sub))"

fun LastIndex :: "string \<Rightarrow> string \<Rightarrow> nat option" where
  "LastIndex [] sub = (if sub = [] then Some 0 else None)"
| "LastIndex (c # cs) sub =
     (case LastIndex cs sub of
        Some i \<Rightarrow> Some (Suc i)
      | None \<Rightarrow> if prefix sub (c # cs) then Some 0 else None)"

definition Contains :: "string \<Rightarrow> string \<Rightarrow> bool" where
  "Contains s sub = (Index s sub \<noteq> None)"

definition HasPrefix :: "string \<Rightarrow> string \<Rightarrow> bool" where
  "HasPrefix s p = prefix p s"

definition TrimSuffix :: "string \<Rightarrow> string \<Rightarrow> string" where
  "TrimSuffix s suf = (if suffix suf s then take (length s - length suf) s else s)"

text \<open>
  \<open>strings.ReplaceAll s old new\<close> for a non-empty \<open>old\<close> (the only use in the
  sources): the non-overlapping occurrences of \<open>old\<close>, left to right.
\<close>

fun ReplaceAll :: "string \<Rightarrow> string \<Rightarrow> string \<Rightarrow> string" where
  "ReplaceAll [] old new = []"
| "ReplaceAll (c # cs) old new =
     (if old \<noteq> [] \<and> prefix old (c # cs)
      then new @ ReplaceAll (drop (length old - 1) cs) old new
      else c # ReplaceAll cs old new)"

text \<open>
  \<open>strings.TrimSpace\<close>: the leading and trailing runes that \<open>unicode.IsSpace\<close>
  accepts, given here by their UTF-8 encodings.
\<close>

definition spaceRunes :: "string list" where
  "spaceRunes =
     [[CHR 0x09], [CHR 0x0A], [CHR 0x0B], [CHR 0x0C], [CHR 0x0D], [CHR 0x20],
      [CHR 0xC2, CHR 0x85], [CHR 0xC2, CHR 0xA0], [CHR 0xE1, CHR 0x9A, CHR 0x80],
      [CHR 0xE2, CHR 0x80, CHR 0x80], [CHR 0xE2, CHR 0x80, CHR 0x81],
      [CHR 0xE2, CHR 0x80, CHR 0x82], [CHR 0xE2, CHR 0x80, CHR 0x83],
      [CHR 0xE2, CHR 0x80, CHR 0x84], [CHR 0xE2, CHR 0x80, CHR 0x85],
      [CHR 0xE2, CHR 0x80, CHR 0x86], [CHR 0xE2, CHR 0x80, CHR 0x87],
      [CHR 0xE2, CHR 0x80, CHR 0x88], [CHR 0xE2, CHR 0x80, CHR 0x89],
      [CHR 0xE2, CHR 0x80, CHR 0x8A], [CHR 0xE2, CHR 0x80, CHR 0xA8],
      [CHR 0xE2, CHR 0x80, CHR 0xA9], [CHR 0xE2, CHR 0x80, CHR 0xAF],
      [CHR 0xE2, CHR 0x81, CHR 0x9F], [CHR 0xE3, CHR 0x80, CHR 0x80]]"

fun TrimLeft :: "string \<Rightarrow> string" where
  "TrimLeft [] = []"
| "TrimLeft (c # cs) =
     (case find (\<lambda>r. prefix r (c # cs)) spaceRunes of
        Some r \<Rightarrow> TrimLeft (drop (length r - 1) cs)
      | None \<Rightarrow> c # cs)"

text \<open>
  Trailing space runes are found by mirroring: a reversed string starts with the reversed
  encoding of its last rune.
\<close>

fun TrimRightRev :: "string \<Rightarrow> string" where
  "TrimRightRev [] = []"
| "TrimRightRev (c # cs) =
     (case find (\<lambda>r. prefix (rev r) (c # cs)) spaceRunes of
        Some r \<Rightarrow> TrimRightRev (drop (length r - 1) cs)
      | None \<Rightarrow> c # cs)"

definition TrimSpace :: "string \<Rightarrow> string" where
  "TrimSpace s = rev (TrimRightRev (rev (TrimLeft s)))"

text \<open>\<open>%d\<close> of \<open>fmt\<close>: an integer in decimal.\<close>

fun digits :: "nat \<Rightarrow> string" where
  "digits n =
     (if n < 10 then [''0123456789'' ! n]
      else digits (n div 10) @ [''0123456789'' ! (n mod 10)])"

definition showInt :: "int \<Rightarrow> string" where
  "showInt i = (if i < 0 then CHR ''-'' # digits (nat (- i)) else digits (nat i))"

section \<open>Package llm: the drift judge\<close>

record AnalysisResult =
  Violation :: bool
  Reasoning :: string
  QuotedCode :: string

definition zeroResult :: AnalysisResult where
  "zeroResult = \<lparr>Violation = False, Reasoning = [], QuotedCode = []\<rparr>"

text \<open>
  Every call that leaves the process is recorded, in order, in a log of events. The
  collaborators (model provider, content provider, cancellation context) are
  deterministic functions of the log so far and of their arguments: whatever a real
  collaborator answers in one run is some such function.
\<close>

datatype event =
    EvGetFiles
  | EvGetContent string
  | EvGetDiff string
  | EvEmbed string
  | EvSearch
  | EvCacheGet string
  | EvCachePut string
  | EvJudge string
  | EvChat string string
  | EvSleep int

type_synonym log = "event list"

text \<open>
  The context: \<open>Some e\<close> when, at a \<open>select\<close> of the retry loop, \<open>ctx.Done()\<close> fires
  before the timer does; \<open>e\<close> is \<open>ctx.Err()\<close>.
\<close>

type_synonym ctx = "log \<Rightarrow> error option"

text \<open>
  \<open>json.Unmarshal(data, &res)\<close> is not code of the repository: it is a parameter that
  takes the value \<open>res\<close> holds before the call and returns the error, if any, and the
  value \<open>res\<close> holds after the call.
\<close>

type_synonym unmarshal = "string \<Rightarrow> AnalysisResult \<Rightarrow> error option \<times> AnalysisResult"

type_synonym chat = "log \<Rightarrow> string \<Rightarrow> string \<Rightarrow> error + string"

definition DefaultSystemPrompt :: string where
  "DefaultSystemPrompt =
     ''You are a literal-minded Architectural Compliance Auditor.\<newline>'' @
     ''Your ONLY task is to identify direct contradictions between the provided Code and the mandatory 'Decision' section of the ADR.\<newline>'' @
     ''\<newline>'' @
     ''CRITICAL GUIDELINES:\<newline>'' @
     ''1. COMPLIANCE IS NOT A VIOLATION: If the code follows the rule (e.g. ADR says '' @ [CHR 0x22] @ ''Use Go'' @ [CHR 0x22] @ '' and code is Go), it is NOT a violation.\<newline>'' @
     ''2. NO INFERENCE: Do not assume '' @ [CHR 0x22] @ ''intent.'' @ [CHR 0x22] @ '' If the ADR says '' @ [CHR 0x22] @ ''Use Go'' @ [CHR 0x22] @ '' and the code is Go, it is a PASS.\<newline>'' @
     ''3. NO STYLE NITS: Do not flag unidiomatic code unless the ADR explicitly forbids it.\<newline>'' @
     ''4. FALSE BY DEFAULT: If you cannot find a clear, literal contradiction, '' @ [CHR 0x22] @ ''violation'' @ [CHR 0x22] @ '' MUST be false.''"

text \<open>The four literal segments of \<open>ChatPrompt\<close> around its three \<open>%s\<close> verbs.\<close>

definition ChatPrompt0 :: string where
  "ChatPrompt0 = ''### INPUT DATA\<newline>File Path: ''"

definition ChatPrompt1 :: string where
  "ChatPrompt1 = ''\<newline>\<newline><adr_content>\<newline>''"

definition ChatPrompt2 :: string where
  "ChatPrompt2 = ''\<newline></adr_content>\<newline>\<newline><code_context>\<newline>''"

definition ChatPrompt3 :: string where
  "ChatPrompt3 =
     ''\<newline></code_context>\<newline>'' @
     ''\<newline>'' @
     ''### TASK\<newline>'' @
     ''Does the code_context literally violate the 'Decision' section of the ADR?\<newline>'' @
     ''\<newline>'' @
     ''### LOGICAL STEPS:\<newline>'' @
     ''1. Identify the literal requirement in the ADR.\<newline>'' @
     ''2. Identify the actual implementation in the code_context.\<newline>'' @
     ''3. If they match or don't explicitly contradict, violation is false.\<newline>'' @
     ''\<newline>'' @
     ''### OUTPUT FORMAT (JSON ONLY)\<newline>'' @
     ''{\<newline>'' @
     ''  '' @ [CHR 0x22] @ ''violation'' @ [CHR 0x22] @ '': bool,\<newline>'' @
     ''  '' @ [CHR 0x22] @ ''reasoning'' @ [CHR 0x22] @ '': '' @ [CHR 0x22] @ ''Single sentence explaining the contradiction.'' @ [CHR 0x22] @ '',\<newline>'' @
     ''  '' @ [CHR 0x22] @ ''quoted_code'' @ [CHR 0x22] @ '': '' @ [CHR 0x22] @ ''The snippet breaking the rule.'' @ [CHR 0x22] @ ''\<newline>'' @
     ''}''"

definition ChatPrompt :: string where
  "ChatPrompt = ChatPrompt0 @ ''%s'' @ ChatPrompt1 @ ''%s'' @ ChatPrompt2 @ ''%s'' @ ChatPrompt3"

definition EscapePromptDelimiter :: "string \<Rightarrow> string" where
  "EscapePromptDelimiter input =
     (let s = ReplaceAll input ''</adr_content>'' ''[ADR_END]'';
          s = ReplaceAll s ''</code_context>'' ''[CODE_END]''
      in ReplaceAll s [CHR 0x60, CHR 0x60, CHR 0x60] [CHR 0x27, CHR 0x27, CHR 0x27])"

text \<open>\<open>fmt.Sprintf(ChatPrompt, filename, safeADR, safeCode)\<close>.\<close>

definition GetAnalyzeDriftPrompt :: "string \<Rightarrow> string \<Rightarrow> string \<Rightarrow> string" where
  "GetAnalyzeDriftPrompt adrContent codeContext filename =
     (let safeADR = EscapePromptDelimiter adrContent;
          safeCode = EscapePromptDelimiter codeContext
      in ChatPrompt0 @ filename @ ChatPrompt1 @ safeADR @ ChatPrompt2 @ safeCode @ ChatPrompt3)"

definition CleanJSON :: "string \<Rightarrow> string" where
  "CleanJSON input0 =
     (let input = TrimSpace input0 in
      case (Index input ''{'', LastIndex input ''}'') of
        (Some start, Some end) \<Rightarrow>
          if end > start then take (end + 1 - start) (drop start input) else input
      | _ \<Rightarrow> input)"

definition maxRetries :: nat where
  "maxRetries = 3"

text \<open>\<open>time.Second\<close>, in nanoseconds as \<open>time.Duration\<close> counts.\<close>

definition Second :: int where
  "Second = 1000000000"

text \<open>\<open>%w\<close> of \<open>lastErr\<close>, which is \<open>nil\<close> until an attempt has failed.\<close>

definition errText :: "error option \<Rightarrow> string" where
  "errText e = (case e of None \<Rightarrow> ''%!w(<nil>)'' | Some m \<Rightarrow> m)"

text \<open>
  The retry loop of \<open>AnalyzeDrift\<close>, from iteration \<open>i\<close> on, with the current
  \<open>backoff\<close> and \<open>lastErr\<close>. A completed wait is logged as \<open>EvSleep\<close>, a call of the
  provider as \<open>EvChat\<close>.
\<close>

function AnalyzeDrift_loop ::
  "ctx \<Rightarrow> chat \<Rightarrow> unmarshal \<Rightarrow> string \<Rightarrow> string \<Rightarrow> nat \<Rightarrow> int \<Rightarrow> error option \<Rightarrow> log
     \<Rightarrow> (error + AnalysisResult) \<times> log"
where
  "AnalyzeDrift_loop cx p unm systemPrompt prompt i backoff lastErr lg =
     (if i \<le> maxRetries then
        (case (if i > 0
               then (case cx lg of
                       Some e \<Rightarrow> Inl e
                     | None \<Rightarrow> Inr (backoff * 2, lg @ [EvSleep backoff]))
               else Inr (backoff, lg)) of
           Inl e \<Rightarrow> (Inl e, lg)
         | Inr (backoff', lg1) \<Rightarrow>
             (let lg2 = lg1 @ [EvChat systemPrompt prompt] in
              case p lg1 systemPrompt prompt of
                Inl err \<Rightarrow>
                  AnalyzeDrift_loop cx p unm systemPrompt prompt (i + 1) backoff' (Some err) lg2
              | Inr raw \<Rightarrow>
                  (case unm (CleanJSON raw) zeroResult of
                     (None, res) \<Rightarrow> (Inr res, lg2)
                   | (Some e1, res1) \<Rightarrow>
                       (case unm raw res1 of
                          (None, res) \<Rightarrow> (Inr res, lg2)
                        | (Some err2, res2) \<Rightarrow>
                            AnalyzeDrift_loop cx p unm systemPrompt prompt (i + 1) backoff'
                              (Some (''invalid json from provider: '' @ err2)) lg2))))
      else (Inl (''analysis failed after '' @ showInt (int maxRetries) @ '' retries: ''
                  @ errText lastErr), lg))"
  by pat_completeness auto
termination
  by (relation "measure (\<lambda>(cx, p, unm, systemPrompt, prompt, i, backoff, lastErr, lg).
        maxRetries + 1 - i)") auto

definition AnalyzeDrift ::
  "ctx \<Rightarrow> chat \<Rightarrow> unmarshal \<Rightarrow> string \<Rightarrow> string \<Rightarrow> string \<Rightarrow> string \<Rightarrow> log
     \<Rightarrow> (error + AnalysisResult) \<times> log"
where
  "AnalyzeDrift cx p unm adrContent codeContext filename systemPrompt lg =
     (let prompt = GetAnalyzeDriftPrompt adrContent codeContext filename
      in AnalyzeDrift_loop cx p unm systemPrompt prompt 0 (2 * Second) None lg)"

text \<open>Observers of a log: the provider calls, and the completed waits in order.\<close>

definition isChat :: "event \<Rightarrow> bool" where
  "isChat e = (case e of EvChat _ _ \<Rightarrow> True | _ \<Rightarrow> False)"

fun sleeps :: "log \<Rightarrow> int list" where
  "sleeps [] = []"
| "sleeps (EvSleep d # es) = d # sleeps es"
| "sleeps (_ # es) = sleeps es"

text \<open>
  Scripted collaborators, after the repository's \<open>MockProvider\<close> tests: a provider
  that fails its first two calls, one that always fails, a context that is never
  cancelled and one that is cancelled at the first wait, and a decoder that accepts two
  responses.
\<close>

definition okResponse :: string where
  "okResponse = ''{'' @ [CHR 0x22] @ ''violation'' @ [CHR 0x22] @ '': false}''"



definition neverDone :: ctx where
  "neverDone lg = None"


definition violationResponse :: string where
  "violationResponse =
     ''{'' @ [CHR 0x22] @ ''violation'' @ [CHR 0x22] @ '': true, '' @
     [CHR 0x22] @ ''reasoning'' @ [CHR 0x22] @ '': '' @
     [CHR 0x22] @ ''Python is not allowed.'' @ [CHR 0x22] @ '', '' @
     [CHR 0x22] @ ''quoted_code'' @ [CHR 0x22] @ '': '' @
     [CHR 0x22] @ ''import python_library'' @ [CHR 0x22] @ ''}''"

definition pythonVerdict :: AnalysisResult where
  "pythonVerdict =
     \<lparr>Violation = True, Reasoning = ''Python is not allowed.'',
      QuotedCode = ''import python_library''\<rparr>"

definition strictUnmarshal :: unmarshal where
  "strictUnmarshal data res =
     (if data = okResponse then (None, res\<lparr>Violation := False\<rparr>)
      else if data = violationResponse then (None, pythonVerdict)
      else (Some ''invalid character'', res))"

section \<open>Floating-point values\<close>

text \<open>
  A \<open>float32\<close> or \<open>float64\<close> value is NaN, an infinity or a real number (the two zeros
  are one value: they compare equal). The comparisons are IEEE 754's: every comparison
  with NaN is false. Rounding is not modelled: the arithmetic operations that the
  sources use are the fields of an arithmetic unit \<open>fpu\<close>, a parameter.
\<close>

datatype float = NaN | NInf | Fin real | PInf

fun f_gt :: "float \<Rightarrow> float \<Rightarrow> bool" where
  "f_gt NaN _ = False"
| "f_gt _ NaN = False"
| "f_gt NInf _ = False"
| "f_gt _ PInf = False"
| "f_gt (Fin a) (Fin b) = (a > b)"
| "f_gt (Fin a) NInf = True"
| "f_gt PInf _ = True"

fun f_eq :: "float \<Rightarrow> float \<Rightarrow> bool" where
  "f_eq NaN _ = False"
| "f_eq _ NaN = False"
| "f_eq a b = (a = b)"

definition f_ge :: "float \<Rightarrow> float \<Rightarrow> bool" where
  "f_ge a b = (f_gt a b \<or> f_eq a b)"

record fpu =
  mul32 :: "float \<Rightarrow> float \<Rightarrow> float"
  add64 :: "float \<Rightarrow> float \<Rightarrow> float"
  mul64 :: "float \<Rightarrow> float \<Rightarrow> float"
  div64 :: "float \<Rightarrow> float \<Rightarrow> float"
  sqrt64 :: "float \<Rightarrow> float"

section \<open>Package index: the similarity index\<close>

record ADR =
  ID :: string
  Title :: string
  Status :: string
  Scope :: string
  Content :: string
  Embedding :: "float list"
  RelPath :: string

record Store =
  ADRs :: "ADR list"
  Hash :: string
  ModelName :: string
  Dim :: int

definition NewStore :: Store where
  "NewStore = \<lparr>ADRs = [], Hash = [], ModelName = [], Dim = 0\<rparr>"

text \<open>
  The field \<open>ADR\<close> of a search result is a pointer to an element of \<open>s.ADRs\<close>: its
  index there.
\<close>

record SearchResult =
  ADR :: nat
  Score :: float

text \<open>The loop of \<open>cosineSimilarity\<close> over two vectors of the same length.\<close>

fun cosineLoop ::
  "fpu \<Rightarrow> float list \<Rightarrow> float list \<Rightarrow> float \<times> float \<times> float \<Rightarrow> float \<times> float \<times> float"
where
  "cosineLoop F (x # xs) (y # ys) (dotProduct, normA, normB) =
     cosineLoop F xs ys
       (add64 F dotProduct (mul32 F x y), add64 F normA (mul32 F x x),
        add64 F normB (mul32 F y y))"
| "cosineLoop F _ _ acc = acc"

definition cosineSimilarity :: "fpu \<Rightarrow> float list \<Rightarrow> float list \<Rightarrow> float" where
  "cosineSimilarity F a b =
     (if length a \<noteq> length b then Fin 0
      else (case cosineLoop F a b (Fin 0, Fin 0, Fin 0) of
              (dotProduct, normA, normB) \<Rightarrow>
                if f_eq normA (Fin 0) \<or> f_eq normB (Fin 0) then Fin 0
                else div64 F dotProduct (mul64 F (sqrt64 F normA) (sqrt64 F normB))))"

text \<open>
  \<open>sort.Slice\<close> is not code of the repository: it is a parameter, given the \<open>less\<close>
  function on the elements. What Go documents of it is \<open>sortsSlices\<close>: the result is a
  rearrangement of the slice, in order when \<open>less\<close> is a strict weak ordering of the
  elements; the sort is not guaranteed to be stable.
\<close>

type_synonym 'a sorter = "('a \<Rightarrow> 'a \<Rightarrow> bool) \<Rightarrow> 'a list \<Rightarrow> 'a list"



text \<open>The first loop of \<open>Search\<close>, at index \<open>i\<close> of \<open>s.ADRs\<close>.\<close>

fun scanADRs :: "fpu \<Rightarrow> float list \<Rightarrow> float \<Rightarrow> ADR list \<Rightarrow> nat \<Rightarrow> SearchResult list" where
  "scanADRs F queryEmbedding threshold [] i = []"
| "scanADRs F queryEmbedding threshold (a # as) i =
     (let score = cosineSimilarity F queryEmbedding (Embedding a) in
      (if f_ge score threshold then [\<lparr>ADR = i, Score = score\<rparr>] else [])
        @ scanADRs F queryEmbedding threshold as (Suc i))"

text \<open>
  \<open>Search\<close>. The slice expression \<open>results[:topK]\<close> panics when \<open>topK\<close> is negative;
  the panic is \<open>Inl\<close>.
\<close>

definition Search ::
  "fpu \<Rightarrow> SearchResult sorter \<Rightarrow> Store \<Rightarrow> float list \<Rightarrow> float \<Rightarrow> int \<Rightarrow> error + SearchResult list"
where
  "Search F srt s queryEmbedding threshold topK =
     (let results = scanADRs F queryEmbedding threshold (ADRs s) 0;
          results = srt (\<lambda>a b. f_gt (Score a) (Score b)) results
      in if int (length results) > topK
         then (if topK < 0 then Inl ''slice bounds out of range''
               else Inr (take (nat topK) results))
         else Inr results)"

text \<open>
  The insertion sort that \<open>sort.Slice\<close> runs on short slices: each element moves left
  while it is less than its left neighbour. The accumulator is the sorted part, last
  element first.
\<close>

fun moveLeft :: "('a \<Rightarrow> 'a \<Rightarrow> bool) \<Rightarrow> 'a \<Rightarrow> 'a list \<Rightarrow> 'a list" where
  "moveLeft lt x [] = [x]"
| "moveLeft lt x (y # ys) = (if lt x y then y # moveLeft lt x ys else x # y # ys)"

definition insertionSort :: "'a sorter" where
  "insertionSort lt xs = rev (foldl (\<lambda>acc x. moveLeft lt x acc) [] xs)"


text \<open>An arithmetic unit without rounding, for operands whose results are exact.\<close>

fun exactMul :: "float \<Rightarrow> float \<Rightarrow> float" where
  "exactMul (Fin a) (Fin b) = Fin (a * b)"
| "exactMul _ _ = NaN"

fun exactAdd :: "float \<Rightarrow> float \<Rightarrow> float" where
  "exactAdd (Fin a) (Fin b) = Fin (a + b)"
| "exactAdd _ _ = NaN"

fun exactDiv :: "float \<Rightarrow> float \<Rightarrow> float" where
  "exactDiv (Fin a) (Fin b) = (if b = 0 then NaN else Fin (a / b))"
| "exactDiv _ _ = NaN"

fun exactSqrt :: "float \<Rightarrow> float" where
  "exactSqrt (Fin a) = (if a < 0 then NaN else Fin (sqrt a))"
| "exactSqrt _ = NaN"

definition exactFpu :: fpu where
  "exactFpu = \<lparr>mul32 = exactMul, add64 = exactAdd, mul64 = exactMul, div64 = exactDiv,
               sqrt64 = exactSqrt\<rparr>"


text \<open>An index of three records, the first two with the same embedding.\<close>

definition adrEx :: "string \<Rightarrow> string \<Rightarrow> float list \<Rightarrow> ADR" where
  "adrEx i t v =
     \<lparr>ID = i, Title = t, Status = ''Accepted'', Scope = [], Content = ''All services must be Go.'',
      Embedding = v, RelPath = i @ ''-adr.md''\<rparr>"

definition storeEx :: Store where
  "storeEx =
     \<lparr>ADRs = [adrEx ''0001'' ''Use Golang'' [Fin 1, Fin 0],
              adrEx ''0002'' ''Use Go modules'' [Fin 1, Fin 0],
              adrEx ''0003'' ''Log in JSON'' [Fin 0, Fin 1]],
      Hash = ''h'', ModelName = ''nomic-embed-text'', Dim = 2\<rparr>"

section \<open>Package cache: the result cache\<close>

text \<open>
  The file system under the cache and the index: a path holds a readable file, or a file
  that \<open>os.ReadFile\<close> fails on, or nothing; \<open>writeError\<close> and \<open>mkdirError\<close>
  are the errors of \<open>os.WriteFile\<close> and \<open>os.MkdirAll\<close> at a path, if they fail
  there.
\<close>

datatype fnode = File string | Unreadable error

record filesystem =
  files :: "string \<Rightarrow> fnode option"
  writeError :: "string \<Rightarrow> error option"
  mkdirError :: "string \<Rightarrow> error option"

definition WriteFile :: "filesystem \<Rightarrow> string \<Rightarrow> string \<Rightarrow> error option \<times> filesystem" where
  "WriteFile fs path data =
     (case writeError fs path of
        Some e \<Rightarrow> (Some e, fs)
      | None \<Rightarrow> (None, fs\<lparr>files := (files fs)(path \<mapsto> File data)\<rparr>))"

record Cache =
  Dir :: string

text \<open>
  \<open>filepath.Join\<close>, \<open>json.Marshal\<close> and \<open>crypto/sha256\<close> are not code of the
  repository: they are parameters. A SHA-256 digest is 256 bits.
\<close>

type_synonym joiner = "string \<Rightarrow> string \<Rightarrow> string"

type_synonym marshal = "AnalysisResult \<Rightarrow> error + string"

type_synonym sha256 = "string \<Rightarrow> 256 word"

definition NewCache :: "joiner \<Rightarrow> filesystem \<Rightarrow> string \<Rightarrow> error + Cache" where
  "NewCache join fs projectRoot =
     (let cacheDir = join (join projectRoot ''.archguard'') ''cache'' in
      case mkdirError fs cacheDir of
        Some err \<Rightarrow> Inl (''failed to create cache dir: '' @ err)
      | None \<Rightarrow> Inr \<lparr>Dir = cacheDir\<rparr>)"

text \<open>\<open>Cache.Get\<close> returns \<open>(*AnalysisResult, bool, error)\<close>; \<open>None\<close> is \<open>nil\<close>.\<close>

definition Get ::
  "joiner \<Rightarrow> unmarshal \<Rightarrow> Cache \<Rightarrow> filesystem \<Rightarrow> string
     \<Rightarrow> AnalysisResult option \<times> bool \<times> error option"
where
  "Get join unm c fs key =
     (let path = join (Dir c) (key @ ''.json'') in
      case files fs path of
        None \<Rightarrow> (None, False, None)
      | Some (Unreadable err) \<Rightarrow> (None, False, Some err)
      | Some (File data) \<Rightarrow>
          (case unm data zeroResult of
             (Some err, res) \<Rightarrow> (None, False, Some err)
           | (None, res) \<Rightarrow> (Some res, True, None)))"

definition Put ::
  "joiner \<Rightarrow> marshal \<Rightarrow> Cache \<Rightarrow> filesystem \<Rightarrow> string \<Rightarrow> AnalysisResult
     \<Rightarrow> error option \<times> filesystem"
where
  "Put join mar c fs key res =
     (let path = join (Dir c) (key @ ''.json'') in
      case mar res of
        Inl err \<Rightarrow> (Some err, fs)
      | Inr data \<Rightarrow> WriteFile fs path data)"

text \<open>\<open>hex.EncodeToString\<close> of the 32 bytes of a digest, the first byte first.\<close>

definition hexDigit :: "nat \<Rightarrow> char" where
  "hexDigit n = ''0123456789abcdef'' ! n"

definition nibble :: "256 word \<Rightarrow> nat \<Rightarrow> nat" where
  "nibble w i = unat (drop_bit (4 * (63 - i)) w AND 15)"

definition EncodeToString :: "256 word \<Rightarrow> string" where
  "EncodeToString w = map (\<lambda>i. hexDigit (nibble w i)) [0..<64]"

text \<open>The bytes that \<open>ComputeAnalysisKey\<close> writes to the hash, in order.\<close>

definition keyMessage :: "string \<Rightarrow> string \<Rightarrow> string \<Rightarrow> string \<Rightarrow> string \<Rightarrow> string" where
  "keyMessage modelName adrContent fileContent systemPrompt userPromptTemplate =
     modelName @ ''||'' @ adrContent @ ''||'' @ fileContent @ ''||'' @ systemPrompt @ ''||''
       @ userPromptTemplate"

definition ComputeAnalysisKey ::
  "sha256 \<Rightarrow> string \<Rightarrow> string \<Rightarrow> string \<Rightarrow> string \<Rightarrow> string \<Rightarrow> string"
where
  "ComputeAnalysisKey sha modelName adrContent fileContent systemPrompt userPromptTemplate =
     EncodeToString
       (sha (keyMessage modelName adrContent fileContent systemPrompt userPromptTemplate))"

text \<open>
  The cache lookup of \<open>Engine.Run\<close>: a cached verdict is used only when \<open>Get\<close>
  returns no error and \<open>found\<close>; \<open>e.Cache\<close> may be \<open>nil\<close>.
\<close>

definition cacheLookup ::
  "joiner \<Rightarrow> unmarshal \<Rightarrow> Cache option \<Rightarrow> filesystem \<Rightarrow> string \<Rightarrow> AnalysisResult option"
where
  "cacheLookup join unm cache fs cacheKey =
     (case cache of
        None \<Rightarrow> None
      | Some c \<Rightarrow>
          (case Get join unm c fs cacheKey of
             (cachedRes, found, err) \<Rightarrow> if err = None \<and> found then cachedRes else None))"

text \<open>
  Collaborators for the examples: a join with a separator, an encoder for the two
  verdicts that \<open>strictUnmarshal\<close> decodes, a file system with a damaged entry and an
  empty one.
\<close>

definition slashJoin :: joiner where
  "slashJoin dir name = dir @ ''/'' @ name"

definition twoMarshal :: marshal where
  "twoMarshal res = Inr (if Violation res then violationResponse else okResponse)"

definition cacheEx :: Cache where
  "cacheEx = \<lparr>Dir = ''.archguard/cache''\<rparr>"

definition emptyFs :: filesystem where
  "emptyFs =
     \<lparr>files = (\<lambda>path. None), writeError = (\<lambda>path. None), mkdirError = (\<lambda>path. None)\<rparr>"

definition damagedFs :: filesystem where
  "damagedFs =
     \<lparr>files = (\<lambda>path. if path = ''.archguard/cache/k.json'' then Some (File ''{'') else None),
      writeError = (\<lambda>path. None), mkdirError = (\<lambda>path. None)\<rparr>"

section \<open>Package config\<close>

text \<open>The fields of the configuration that the analysis pipeline and \<open>runCheck\<close> read.\<close>

record LLMConfig =
  Model :: string
  MaxTokens :: int
  SystemPrompt :: string

record VectorStore =
  Model :: string
  EmbeddingDim :: int
  SimilarityThreshold :: float

record Analysis =
  ADRPath :: string
  ExcludePatterns :: "string list"
  MaxConcurrency :: int

record Config =
  LLM :: LLMConfig
  VectorStore :: VectorStore
  Analysis :: Analysis

section \<open>Package analysis: the pipeline\<close>

text \<open>
  The collaborators of the engine. The content provider and the model provider answer as
  functions of the log so far. The tokenizer (\<open>tiktoken\<close>), \<open>filepath.Match\<close>,
  \<open>regexp.MatchString\<close>, \<open>filepath.Walk\<close>, \<open>%q\<close> and the decoder of the index file
  are not code of the repository: with those of the packages above they are the fields
  of \<open>stdlib\<close>, a parameter.
\<close>

record ContentProvider =
  GetFiles :: "log \<Rightarrow> error + string list"
  GetContent :: "log \<Rightarrow> string \<Rightarrow> error + string"
  GetDiff :: "log \<Rightarrow> string \<Rightarrow> error + string"

record Provider =
  CreateEmbedding :: "log \<Rightarrow> string \<Rightarrow> error + float list"
  Chat :: chat

record Tiktoken =
  Encode :: "string \<Rightarrow> int list"
  Decode :: "int list \<Rightarrow> string"

text \<open>
  One call of the function that \<open>filepath.Walk\<close> is given: an entry with its name,
  whether it is a directory and, when \<open>os.ReadFile\<close> succeeds on it, its content; or
  the error that the walk reports.
\<close>

datatype walkEntry = Entry string bool "string option" | WalkError error

record stdlib =
  jsonUnmarshal :: unmarshal
  jsonMarshal :: marshal
  jsonUnmarshalStore :: "string \<Rightarrow> Store \<Rightarrow> error option \<times> Store"
  filepathJoin :: joiner
  filepathMatch :: "string \<Rightarrow> string \<Rightarrow> bool"
  filepathWalk :: "string \<Rightarrow> walkEntry list"
  regexpMatchString :: "string \<Rightarrow> string \<Rightarrow> bool"
  strconvQuote :: "string \<Rightarrow> string"
  sha256Sum :: sha256
  sortSlice :: "SearchResult sorter"
  arith :: fpu
  EncodingForModel :: "string \<Rightarrow> error + Tiktoken"
  GetEncoding :: "string \<Rightarrow> error + Tiktoken"

record Engine =
  Config :: Config
  Store :: Store
  Provider :: Provider
  Content :: ContentProvider
  Debug :: bool
  CI :: bool
  Cache :: "Cache option"

text \<open>
  The lines that the engine prints, one constructor for each format string of the
  sources, with the arguments of the format.
\<close>

datatype line =
    LAnalyzing string
  | LErrorReading string error
  | LContextMode string
  | LWarnOpen string
  | LErrorEmbedding string error
  | LNoRelevantADRs
  | LSkipping string
  | LChecking string float
  | LCacheHit string
  | LCacheMiss
  | LWarningLLM error
  | LViolation string int
  | LReasoning string
  | LCode string
  | LLogTokenizerFailed error
  | LLogCacheFailed error
  | LDebugModeEnabled
  | LNoViolationsFound

text \<open>
  What a run changes: the log of outside calls, the file system of the cache, and the
  standard output.
\<close>

record state =
  events :: log
  disk :: filesystem
  stdout :: "line list"

text \<open>A Go panic ends the program: a function that may panic returns an \<open>outcome\<close>.\<close>

datatype 'a outcome = Panic string | Return 'a

definition NewEngine ::
  "stdlib \<Rightarrow> filesystem \<Rightarrow> Config \<Rightarrow> Store \<Rightarrow> Provider \<Rightarrow> ContentProvider \<Rightarrow> bool \<Rightarrow> bool \<Rightarrow> Engine"
where
  "NewEngine L files0 cfg store provider content debug ci =
     \<lparr>Config = cfg, Store = store, Provider = provider, Content = content, Debug = debug,
      CI = ci,
      Cache = (case NewCache (filepathJoin L) files0 ''.'' of Inl err \<Rightarrow> None | Inr c \<Rightarrow> Some c)\<rparr>"

text \<open>\<open>Engine.Log\<close> prints at once, and only in debug mode.\<close>

definition Log :: "Engine \<Rightarrow> line \<Rightarrow> state \<Rightarrow> state" where
  "Log e l st = (if Debug e then st\<lparr>stdout := stdout st @ [l]\<rparr> else st)"

text \<open>\<open>fmt.Print(sb.String())\<close>: a worker's buffer goes to the output in one piece.\<close>

definition flush :: "state \<Rightarrow> line list \<Rightarrow> state" where
  "flush st sb = st\<lparr>stdout := stdout st @ sb\<rparr>"

definition logEvent :: "state \<Rightarrow> event \<Rightarrow> state" where
  "logEvent st ev = st\<lparr>events := events st @ [ev]\<rparr>"

definition shouldExclude :: "stdlib \<Rightarrow> Engine \<Rightarrow> string \<Rightarrow> bool" where
  "shouldExclude L e path =
     list_ex
       (\<lambda>pattern. filepathMatch L pattern path
          \<or> (Contains pattern ''**'' \<and> HasPrefix path (TrimSuffix pattern ''**'')))
       (ExcludePatterns (Analysis (Config e)))"

text \<open>The regular expression that \<open>matchRegexGlob\<close> builds, without its anchors.\<close>

fun globToRegex :: "string \<Rightarrow> string" where
  "globToRegex [] = []"
| "globToRegex (c # cs) =
     (if c = CHR ''*'' then
        (if cs \<noteq> [] \<and> hd cs = CHR ''*'' then ''.*'' @ globToRegex (tl cs)
         else ''[^/]*'' @ globToRegex cs)
      else if c = CHR ''?'' then ''[^/]'' @ globToRegex cs
      else if c \<in> set (''.+()|^$[]{}'' @ [CHR 0x5C]) then CHR 0x5C # c # globToRegex cs
      else c # globToRegex cs)"

definition matchRegexGlob :: "stdlib \<Rightarrow> string \<Rightarrow> string \<Rightarrow> bool" where
  "matchRegexGlob L pattern name =
     regexpMatchString L (''^'' @ globToRegex pattern @ ''$'') name"

definition matchGlob :: "stdlib \<Rightarrow> string \<Rightarrow> string \<Rightarrow> bool" where
  "matchGlob L pattern name =
     (if \<not> Contains pattern ''**'' then filepathMatch L pattern name
      else matchRegexGlob L pattern name)"

definition getTokenizer :: "stdlib \<Rightarrow> Engine \<Rightarrow> error + Tiktoken" where
  "getTokenizer L e =
     (let model = LLMConfig.Model (LLM (Config e));
          model = (if model = [] then ''gpt-3.5-turbo'' else model)
      in case EncodingForModel L model of
           Inl err \<Rightarrow> GetEncoding L ''cl100k_base''
         | Inr tkm \<Rightarrow> Inr tkm)"

text \<open>
  The truncation branch of \<open>fetchContext\<close>. It runs when there are more tokens than
  \<open>maxTokens\<close>, so that \<open>tokenIds[:maxTokens]\<close> panics exactly when \<open>maxTokens\<close> is
  negative.
\<close>

definition smartTruncate :: "Tiktoken \<Rightarrow> int list \<Rightarrow> int \<Rightarrow> (string \<times> string \<times> error option) outcome" where
  "smartTruncate tkm tokenIds maxTokens =
     (if maxTokens < 0 then Panic ''slice bounds out of range''
      else
        (let truncatedIds = take (nat maxTokens) tokenIds;
             truncatedContent = Decode tkm truncatedIds;
             truncatedContent =
               (case LastIndex truncatedContent ''\<newline>'' of
                  Some lastNewline \<Rightarrow> take (lastNewline + 1) truncatedContent
                | None \<Rightarrow> truncatedContent)
         in Return (truncatedContent, ''truncated'', None)))"

text \<open>\<open>fetchContext\<close> returns \<open>(string, string, error)\<close>: the text, the mode, the error.\<close>

definition fetchContext ::
  "stdlib \<Rightarrow> Engine \<Rightarrow> string \<Rightarrow> state \<Rightarrow> (string \<times> string \<times> error option) outcome \<times> state"
where
  "fetchContext L e path st =
     (let maxTokens = MaxTokens (LLM (Config e));
          maxTokens = (if maxTokens = 0 then 8000 else maxTokens);
          st1 = logEvent st (EvGetContent path)
      in case GetContent (Content e) (events st) path of
           Inl err \<Rightarrow> (Return ([], [], Some err), st1)
         | Inr fullContent \<Rightarrow>
             (case getTokenizer L e of
                Inl err \<Rightarrow>
                  (let st2 = Log e (LLogTokenizerFailed err) st1 in
                   if int (length fullContent) > maxTokens * 4
                   then (if maxTokens * 4 < 0 then (Panic ''slice bounds out of range'', st2)
                         else (Return (take (nat (maxTokens * 4)) fullContent, ''truncated'', None),
                               st2))
                   else (Return (fullContent, ''full'', None), st2))
              | Inr tkm \<Rightarrow>
                  (let tokenIds = Encode tkm fullContent in
                   if int (length tokenIds) \<le> maxTokens
                   then (Return (fullContent, ''full'', None), st1)
                   else
                     (let st2 = logEvent st1 (EvGetDiff path) in
                      case GetDiff (Content e) (events st1) path of
                        Inl err \<Rightarrow> (smartTruncate tkm tokenIds maxTokens, st2)
                      | Inr diff \<Rightarrow>
                          if diff = [] then (smartTruncate tkm tokenIds maxTokens, st2)
                          else (Return (diff, ''diff'', None), st2)))))"

text \<open>
  \<open>findLineNumber\<close>: \<open>strings.Split\<close> of the text before the quote at the newlines has
  one element more than that text has newlines.
\<close>

definition findLineNumber :: "string \<Rightarrow> string \<Rightarrow> int" where
  "findLineNumber content quote =
     (if quote = [] then 0
      else case Index content quote of
             None \<Rightarrow> 0
           | Some idx \<Rightarrow> int (length (filter (\<lambda>c. c = CHR 0x0A) (take idx content)) + 1))"

text \<open>The end of the body of the loop over the hits: the report of a verdict.\<close>

definition reportVerdict ::
  "string \<Rightarrow> ADR \<Rightarrow> AnalysisResult \<Rightarrow> line list \<times> int \<times> state \<Rightarrow> line list \<times> int \<times> state"
where
  "reportVerdict content adr res acc =
     (case acc of
        (sb, localViolations, st) \<Rightarrow>
          if Violation res
          then (sb @ [LViolation (Title adr) (findLineNumber content (QuotedCode res)),
                      LReasoning (Reasoning res)]
                   @ (if QuotedCode res \<noteq> [] then [LCode (QuotedCode res)] else []),
                localViolations + 1, st)
          else (sb, localViolations, st))"

text \<open>
  The store of a fresh verdict: \<open>Put\<close> when there is a cache, and a debug line when
  \<open>Put\<close> fails.
\<close>

definition storeVerdict :: "stdlib \<Rightarrow> Engine \<Rightarrow> string \<Rightarrow> AnalysisResult \<Rightarrow> state \<Rightarrow> state" where
  "storeVerdict L e cacheKey res st =
     (case Cache e of
        None \<Rightarrow> st
      | Some c \<Rightarrow>
          (case Put (filepathJoin L) (jsonMarshal L) c (disk st) cacheKey res of
             (perr, fs') \<Rightarrow>
               (let st' = (logEvent st (EvCachePut cacheKey))\<lparr>disk := fs'\<rparr>
                in case perr of
                     Some err \<Rightarrow> Log e (LLogCacheFailed err) st'
                   | None \<Rightarrow> st')))"

text \<open>
  The body of the loop over the hits of one file, for one hit: the worker's buffer, its
  count of violations and the state, before and after. A \<open>continue\<close> returns them as
  they are at that point.
\<close>

definition checkHit ::
  "ctx \<Rightarrow> stdlib \<Rightarrow> Engine \<Rightarrow> string \<Rightarrow> string \<Rightarrow> SearchResult \<Rightarrow> line list \<times> int \<times> state
     \<Rightarrow> line list \<times> int \<times> state"
where
  "checkHit cx L e file content hit acc =
     (case acc of
        (sb, localViolations, st) \<Rightarrow>
          (let adr = ADRs (Store e) ! ADR hit in
           if Scope adr \<noteq> [] \<and> \<not> matchGlob L (Scope adr) file then (sb, localViolations, st)
           else
             (let header = (if length content > 2000 then take 2000 content else content) in
              if Contains header (''archguard-ignore: '' @ ID adr)
              then (sb @ (if Debug e then [LSkipping (Title adr)] else []), localViolations, st)
              else
                (let sb1 = sb @ (if Debug e then [LChecking (Title adr) (Score hit)] else []);
                     systemPrompt = SystemPrompt (LLM (Config e));
                     systemPrompt = (if systemPrompt = [] then DefaultSystemPrompt else systemPrompt);
                     cacheKey = ComputeAnalysisKey (sha256Sum L) (LLMConfig.Model (LLM (Config e)))
                                  (ADR.Content adr) content systemPrompt ChatPrompt;
                     res0 = cacheLookup (filepathJoin L) (jsonUnmarshal L) (Cache e) (disk st) cacheKey;
                     st1 = (if Cache e \<noteq> None then logEvent st (EvCacheGet cacheKey) else st);
                     sb2 = sb1 @ (if res0 \<noteq> None \<and> Debug e then [LCacheHit (Title adr)] else [])
                 in case res0 of
                      Some res \<Rightarrow> reportVerdict content adr res (sb2, localViolations, st1)
                    | None \<Rightarrow>
                        (let sb3 = sb2 @ (if Debug e then [LCacheMiss] else []);
                             st2 = logEvent st1 (EvJudge (ID adr))
                         in case AnalyzeDrift cx (Chat (Provider e)) (jsonUnmarshal L)
                                   (ADR.Content adr) content file systemPrompt (events st2) of
                              (Inl err, lg') \<Rightarrow>
                                (sb3 @ [LWarningLLM err], localViolations, st2\<lparr>events := lg'\<rparr>)
                            | (Inr res, lg') \<Rightarrow>
                                (let st3 = st2\<lparr>events := lg'\<rparr>;
                                     st4 = storeVerdict L e cacheKey res st3
                                 in reportVerdict content adr res (sb3, localViolations, st4)))))))"

fun checkHits ::
  "ctx \<Rightarrow> stdlib \<Rightarrow> Engine \<Rightarrow> string \<Rightarrow> string \<Rightarrow> SearchResult list \<Rightarrow> line list \<times> int \<times> state
     \<Rightarrow> line list \<times> int \<times> state"
where
  "checkHits cx L e file content [] acc = acc"
| "checkHits cx L e file content (hit # hits) acc =
     checkHits cx L e file content hits (checkHit cx L e file content hit acc)"

text \<open>
  The function that \<open>Run\<close> starts for one file. It returns what it adds to the shared
  count of violations: nothing on the paths that return early.
\<close>

definition worker :: "ctx \<Rightarrow> stdlib \<Rightarrow> Engine \<Rightarrow> string \<Rightarrow> state \<Rightarrow> (int \<times> state) outcome" where
  "worker cx L e file st =
     (let sb0 = (if Debug e then [LAnalyzing file] else []) in
      case fetchContext L e file st of
        (Panic m, st1) \<Rightarrow> Panic m
      | (Return (content, diffMode, Some err), st1) \<Rightarrow>
          Return (0, flush st1 (sb0 @ [LErrorReading file err]))
      | (Return (content, diffMode, None), st1) \<Rightarrow>
          (let sb1 = sb0 @ (if Debug e then [LContextMode diffMode] else []) in
           if diffMode = ''truncated'' \<and> CI e then Return (0, flush st1 (sb1 @ [LWarnOpen file]))
           else
             (let st2 = logEvent st1 (EvGetDiff file);
                  diffForEmbedding =
                    (case GetDiff (Content e) (events st1) file of
                       Inl err \<Rightarrow> content
                     | Inr d \<Rightarrow> if d = [] then content else d);
                  diffForEmbedding =
                    (if length diffForEmbedding > 6000 then take 6000 diffForEmbedding
                     else diffForEmbedding);
                  st3 = logEvent st2 (EvEmbed diffForEmbedding)
              in case CreateEmbedding (Provider e) (events st2) diffForEmbedding of
                   Inl err \<Rightarrow> Return (0, flush st3 (sb1 @ [LErrorEmbedding file err]))
                 | Inr embedding \<Rightarrow>
                     (let st4 = logEvent st3 EvSearch in
                      case Search (arith L) (sortSlice L) (Store e) embedding
                             (SimilarityThreshold (VectorStore (Config e))) 3 of
                        Inl m \<Rightarrow> Panic m
                      | Inr hits \<Rightarrow>
                          if hits = []
                          then Return (0, flush st4 (sb1 @ (if Debug e then [LNoRelevantADRs] else [])))
                          else
                            (case checkHits cx L e file content hits (sb1, 0, st4) of
                               (sb, localViolations, st5) \<Rightarrow>
                                 Return (localViolations, flush st5 sb))))))"

text \<open>
  The workers run concurrently, at most \<open>MaxConcurrency\<close> (or 5) at a time, and print
  and add to the count under one mutex. The model runs them one after the other in the
  order of the file list, which is one schedule of the program.
\<close>

fun runWorkers ::
  "ctx \<Rightarrow> stdlib \<Rightarrow> Engine \<Rightarrow> string list \<Rightarrow> int \<Rightarrow> state \<Rightarrow> (int \<times> state) outcome"
where
  "runWorkers cx L e [] violations st = Return (violations, st)"
| "runWorkers cx L e (file # rest) violations st =
     (if shouldExclude L e file then runWorkers cx L e rest violations st
      else case worker cx L e file st of
             Panic m \<Rightarrow> Panic m
           | Return (localViolations, st') \<Rightarrow>
               runWorkers cx L e rest (violations + localViolations) st')"

definition Run :: "ctx \<Rightarrow> stdlib \<Rightarrow> Engine \<Rightarrow> state \<Rightarrow> (error option \<times> state) outcome" where
  "Run cx L e st =
     (let st0 = logEvent st EvGetFiles in
      case GetFiles (Content e) (events st) of
        Inl err \<Rightarrow> Return (Some err, st0)
      | Inr fileList \<Rightarrow>
          (case runWorkers cx L e fileList 0 st0 of
             Panic m \<Rightarrow> Panic m
           | Return (violations, st') \<Rightarrow>
               Return (if violations > 0
                       then Some (''found '' @ showInt violations @ '' architectural violations'')
                       else None, st')))"


section \<open>Loading the index, and the check command\<close>

fun Join :: "string list \<Rightarrow> string \<Rightarrow> string" where
  "Join [] sep = []"
| "Join [x] sep = x"
| "Join (x # y # ys) sep = x @ sep @ Join (y # ys) sep"

text \<open>
  \<open>Store.CalculateHash\<close>: the bytes written to the hash along the walk of the ADR
  directory, and the error of the walk, if any.
\<close>

fun hashWalk :: "walkEntry list \<Rightarrow> string \<Rightarrow> string \<times> error option" where
  "hashWalk [] written = (written, None)"
| "hashWalk (WalkError err # es) written = (written, Some err)"
| "hashWalk (Entry name isDir content # es) written =
     hashWalk es
       (if \<not> isDir \<and> suffix ''.md'' name
        then written @ name @ (case content of Some c \<Rightarrow> c | None \<Rightarrow> [])
        else written)"

definition CalculateHash :: "stdlib \<Rightarrow> string \<Rightarrow> string \<Rightarrow> string \<times> error option" where
  "CalculateHash L dirPath modelName =
     (case hashWalk (filepathWalk L dirPath) modelName of
        (written, err) \<Rightarrow> (EncodeToString (sha256Sum L written), err))"

text \<open>
  \<open>Store.Load\<close> returns the error and leaves the store as the decoder left it. A path
  that holds nothing is \<open>os.IsNotExist\<close>.
\<close>

definition Load ::
  "stdlib \<Rightarrow> filesystem \<Rightarrow> Store \<Rightarrow> string \<Rightarrow> string \<Rightarrow> int \<Rightarrow> string \<Rightarrow> error option \<times> Store"
where
  "Load L files0 s path modelName embDim currentHash =
     (case files files0 path of
        None \<Rightarrow> (None, s)
      | Some (Unreadable err) \<Rightarrow> (Some err, s)
      | Some (File data) \<Rightarrow>
          (case jsonUnmarshalStore L data s of
             (Some err, s') \<Rightarrow> (Some err, s')
           | (None, s') \<Rightarrow>
               if ModelName s' \<noteq> modelName \<or> Dim s' \<noteq> embDim \<or> Hash s' \<noteq> currentHash
               then
                 (let reasons =
                        (if ModelName s' \<noteq> modelName
                         then [''Model mismatch (Saved: '' @ strconvQuote L (ModelName s')
                                 @ '', Config: '' @ strconvQuote L modelName @ '')'']
                         else [])
                        @ (if Dim s' \<noteq> embDim
                           then [''Dimension mismatch (Saved: '' @ showInt (Dim s')
                                   @ '', Config: '' @ showInt embDim @ '')'']
                           else [])
                        @ (if Hash s' \<noteq> currentHash
                           then [''Hash mismatch\<newline>    Saved:   '' @ Hash s'
                                   @ ''\<newline>    Current: '' @ currentHash]
                           else [])
                  in (Some (''index metadata mismatch:\<newline>  '' @ Join reasons ''\<newline>  ''), s'))
               else (None, s')))"

text \<open>
  The flags of \<open>check\<close> after parsing, and the content providers that \<open>runCheck\<close>
  chooses among. The providers read git and the work tree: what each answers is the
  parameter \<open>providers\<close>.
\<close>

record checkFlags =
  staged :: bool
  allFiles :: bool
  debug :: bool
  ci :: bool
  args :: "string list"

datatype providerKind =
  AllProvider | SingleFileProvider string | StagedProvider | UncommittedProvider

definition chooseProvider :: "checkFlags \<Rightarrow> providerKind" where
  "chooseProvider flags =
     (if length (args flags) > 0
      then (let target = hd (args flags) in
            if target = ''.'' then AllProvider else SingleFileProvider target)
      else if staged flags then StagedProvider
      else if allFiles flags then AllProvider
      else UncommittedProvider)"

definition runCheck ::
  "ctx \<Rightarrow> stdlib \<Rightarrow> (providerKind \<Rightarrow> ContentProvider) \<Rightarrow> Config \<Rightarrow> Provider \<Rightarrow> string
     \<Rightarrow> checkFlags \<Rightarrow> state \<Rightarrow> (error option \<times> state) outcome"
where
  "runCheck cx L providers cfg provider indexFile flags st =
     (let store = NewStore in
      case CalculateHash L (ADRPath (Analysis cfg)) (VectorStore.Model (VectorStore cfg)) of
        (currentHash, Some err) \<Rightarrow>
          Return (Some (''failed to calculate ADR hash: '' @ err), st)
      | (currentHash, None) \<Rightarrow>
          (case Load L (disk st) store indexFile (VectorStore.Model (VectorStore cfg))
                  (EmbeddingDim (VectorStore cfg)) currentHash of
             (Some err, store') \<Rightarrow>
               Return (Some (''index mismatch or load failed (run 'archguard index' to rebuild): ''
                              @ err), st)
           | (None, store') \<Rightarrow>
               (let contentProvider = providers (chooseProvider flags);
                    st1 = (if debug flags then st\<lparr>stdout := stdout st @ [LDebugModeEnabled]\<rparr>
                           else st);
                    engine = NewEngine L (disk st1) cfg store' provider contentProvider
                               (debug flags) (ci flags)
                in case Run cx L engine st1 of
                     Panic m \<Rightarrow> Panic m
                   | Return (Some err, st2) \<Rightarrow> Return (Some (''analysis failed: '' @ err), st2)
                   | Return (None, st2) \<Rightarrow>
                       Return (None, st2\<lparr>stdout := stdout st2 @ [LNoViolationsFound]\<rparr>))))"

section \<open>Collaborators of the examples\<close>

text \<open>
  After the repository's tests: a tokenizer with one token for each byte, a standard
  library of small stand-ins, the mock providers, and the engines and stores of the
  scenarios.
\<close>

definition byteTokenizer :: Tiktoken where
  "byteTokenizer =
     \<lparr>Encode = map (\<lambda>c. of_char c), Decode = map (\<lambda>i. char_of i)\<rparr>"

definition indexDecoder :: "string \<Rightarrow> Store \<Rightarrow> error option \<times> Store" where
  "indexDecoder data s =
     (if data = ''index of storeEx'' then (None, storeEx)
      else (Some ''invalid character'', s))"

definition stdlibEx :: stdlib where
  "stdlibEx =
     \<lparr>jsonUnmarshal = strictUnmarshal,
      jsonMarshal = twoMarshal,
      jsonUnmarshalStore = indexDecoder,
      filepathJoin = slashJoin,
      filepathMatch = (\<lambda>pattern name. pattern = name),
      filepathWalk = (\<lambda>dirPath. []),
      regexpMatchString = (\<lambda>re name. re = ''^.*$''),
      strconvQuote = (\<lambda>s. [CHR 0x22] @ s @ [CHR 0x22]),
      sha256Sum = (\<lambda>s. of_nat (length s)),
      sortSlice = insertionSort,
      arith = exactFpu,
      EncodingForModel = (\<lambda>model. Inl ''no encoding for model''),
      GetEncoding = (\<lambda>name. Inr byteTokenizer)\<rparr>"

definition mockProvider :: "chat \<Rightarrow> Provider" where
  "mockProvider chatFunc =
     \<lparr>CreateEmbedding = (\<lambda>lg0 text. Inr [Fin 1, Fin 0]), Chat = chatFunc\<rparr>"

definition violationChat :: chat where
  "violationChat lg0 systemPrompt prompt = Inr violationResponse"

text \<open>\<open>MockContentProvider\<close>: the diff of a file is its content.\<close>

definition mockContent :: "(string \<times> string) list \<Rightarrow> ContentProvider" where
  "mockContent fileMap =
     \<lparr>GetFiles = (\<lambda>lg0. Inr (map fst fileMap)),
      GetContent = (\<lambda>lg0 path. Inr (case map_of fileMap path of Some c \<Rightarrow> c | None \<Rightarrow> [])),
      GetDiff = (\<lambda>lg0 path. Inr (case map_of fileMap path of Some c \<Rightarrow> c | None \<Rightarrow> []))\<rparr>"

text \<open>\<open>MockTruncationProvider\<close>: one file, and no diff.\<close>

definition truncationContent :: "string \<Rightarrow> ContentProvider" where
  "truncationContent c =
     \<lparr>GetFiles = (\<lambda>lg0. Inr [''test.go'']),
      GetContent = (\<lambda>lg0 path. Inr c),
      GetDiff = (\<lambda>lg0 path. Inr [])\<rparr>"

definition configEx :: "int \<Rightarrow> Config" where
  "configEx maxTokens =
     \<lparr>LLM = \<lparr>LLMConfig.Model = [], MaxTokens = maxTokens, SystemPrompt = []\<rparr>,
      VectorStore = \<lparr>Model = ''nomic-embed-text'', EmbeddingDim = 2, SimilarityThreshold = Fin 0\<rparr>,
      Analysis = \<lparr>ADRPath = ''docs/arch'', ExcludePatterns = [], MaxConcurrency = 0\<rparr>\<rparr>"

definition storeOne :: Store where
  "storeOne =
     \<lparr>ADRs = [adrEx ''0001'' ''Use Golang'' [Fin 1, Fin 0]],
      Hash = ''h'', ModelName = ''nomic-embed-text'', Dim = 2\<rparr>"

definition storeFour :: Store where
  "storeFour =
     \<lparr>ADRs = [adrEx ''0001'' ''Use Golang'' [Fin 1, Fin 0],
              adrEx ''0002'' ''Use Go modules'' [Fin 1, Fin 0],
              adrEx ''0003'' ''Log in JSON'' [Fin 1, Fin 0],
              adrEx ''0004'' ''No globals'' [Fin 1, Fin 0]],
      Hash = ''h'', ModelName = ''nomic-embed-text'', Dim = 2\<rparr>"

definition engineEx :: "Store \<Rightarrow> chat \<Rightarrow> ContentProvider \<Rightarrow> int \<Rightarrow> bool \<Rightarrow> Engine" where
  "engineEx store chatFunc content maxTokens ciMode =
     \<lparr>Config = configEx maxTokens, Store = store, Provider = mockProvider chatFunc,
      Content = content, Debug = False, CI = ciMode, Cache = None\<rparr>"

definition state0 :: state where
  "state0 = \<lparr>events = [], disk = emptyFs, stdout = []\<rparr>"

section \<open>Observers\<close>

text \<open>
  What the properties count in a log and in the output: the judgments started, the
  embedding calls, the searches, and the reports of a violation.
\<close>

definition isJudge :: "event \<Rightarrow> bool" where
  "isJudge ev = (case ev of EvJudge _ \<Rightarrow> True | _ \<Rightarrow> False)"

definition isEmbed :: "event \<Rightarrow> bool" where
  "isEmbed ev = (case ev of EvEmbed _ \<Rightarrow> True | _ \<Rightarrow> False)"

definition isSearch :: "event \<Rightarrow> bool" where
  "isSearch ev = (case ev of EvSearch \<Rightarrow> True | _ \<Rightarrow> False)"

definition isViolationLine :: "line \<Rightarrow> bool" where
  "isViolationLine l = (case l of LViolation _ _ \<Rightarrow> True | _ \<Rightarrow> False)"

definition violationLines :: "line list \<Rightarrow> int" where
  "violationLines ls = int (length (filter isViolationLine ls))"

definition judgeEvent :: "event \<Rightarrow> bool" where
  "judgeEvent ev = (case ev of EvChat _ _ \<Rightarrow> True | EvSleep _ \<Rightarrow> True | _ \<Rightarrow> False)"

text \<open>
  What the loop over the hits may do between two of its points: the log grows, by at most
  \<open>j\<close> judgments of at most four provider calls each and by no embedding call and no
  search; the count of violations grows by at most \<open>v\<close>, and by as much as the
  worker's buffer gains reports of a violation; the reports already printed stay.
\<close>

definition stepsBy ::
  "nat \<Rightarrow> nat \<Rightarrow> line list \<times> int \<times> state \<Rightarrow> line list \<times> int \<times> state \<Rightarrow> bool"
where
  "stepsBy j v acc acc' =
     (case (acc, acc') of
        ((sb, lv, st), (sb', lv', st')) \<Rightarrow>
          (\<exists>evs. events st' = events st @ evs
             \<and> length (filter isJudge evs) \<le> j
             \<and> length (filter isChat evs) \<le> 4 * j
             \<and> filter isEmbed evs = [] \<and> filter isSearch evs = [])
          \<and> lv \<le> lv' \<and> lv' \<le> lv + int v
          \<and> violationLines sb' = violationLines sb + (lv' - lv)
          \<and> violationLines (stdout st') = violationLines (stdout st))"

text \<open>The engine of \<open>TestDriftDetection\<close>, for a store and a chat function.\<close>

definition driftEngine :: "Store \<Rightarrow> chat \<Rightarrow> Engine" where
  "driftEngine store chatFunc =
     engineEx store chatFunc (mockContent [(''service.py'', ''// content ignored by mock'')]) 0 False"

text \<open>
  The scenarios of the check command: every target is served by the mock content
  provider; the index file is missing, or holds the index \<open>storeEx\<close>.
\<close>

definition providersEx :: "providerKind \<Rightarrow> ContentProvider" where
  "providersEx kind = mockContent [(''service.py'', ''// content ignored by mock'')]"

definition flagsEx :: checkFlags where
  "flagsEx = \<lparr>staged = False, allFiles = False, debug = False, ci = False, args = []\<rparr>"

definition indexedFs :: filesystem where
  "indexedFs =
     \<lparr>files = (\<lambda>path. if path = ''.archguard/index.json'' then Some (File ''index of storeEx'')
                       else None),
      writeError = (\<lambda>path. None), mkdirError = (\<lambda>path. None)\<rparr>"

text \<open>The prefix that \<open>runCheck\<close> puts before an error of \<open>Store.Load\<close>.\<close>

definition loadFailed :: string where
  "loadFailed = ''index mismatch or load failed (run 'archguard index' to rebuild): ''"

text \<open>The engine that \<open>runCheck\<close> builds in the scenario where the index file is missing.\<close>

definition checkEngine :: Engine where
  "checkEngine = NewEngine stdlibEx emptyFs (configEx 0) NewStore (mockProvider violationChat)
        (providersEx (chooseProvider flagsEx)) False False"

section \<open>Properties\<close>

subsection \<open>The retry loop of the drift judge\<close>

declare AnalyzeDrift_loop.simps [simp del]

lemma loop_first:
  "AnalyzeDrift_loop cx p unm sys pr 0 b le lg =
     (case p lg sys pr of
        Inl err \<Rightarrow> AnalyzeDrift_loop cx p unm sys pr 1 b (Some err) (lg @ [EvChat sys pr])
      | Inr raw \<Rightarrow>
          (case unm (CleanJSON raw) zeroResult of
             (None, res) \<Rightarrow> (Inr res, lg @ [EvChat sys pr])
           | (Some e1, res1) \<Rightarrow>
               (case unm raw res1 of
                  (None, res) \<Rightarrow> (Inr res, lg @ [EvChat sys pr])
                | (Some err2, res2) \<Rightarrow>
                    AnalyzeDrift_loop cx p unm sys pr 1 b
                      (Some (''invalid json from provider: '' @ err2)) (lg @ [EvChat sys pr]))))"
  by (subst AnalyzeDrift_loop.simps)
     (simp add: maxRetries_def Let_def split: sum.splits prod.splits option.splits)





lemma sleeps_append: "sleeps (xs @ ys) = sleeps xs @ sleeps ys"
  by (induction xs rule: sleeps.induct) auto

lemma upt_shift: "map (\<lambda>k. (b::int) * 2 ^ k) [0..<Suc n] = b # map (\<lambda>k. (b * 2) * 2 ^ k) [0..<n]"
proof -
  have "[0..<Suc n] = 0 # map Suc [0..<n]"
    by (simp add: upt_conv_Cons map_Suc_upt del: upt_Suc)
  then show ?thesis by (simp add: comp_def del: upt_Suc)
qed

lemma loop_trace:
  "i \<le> 4 \<Longrightarrow> \<exists>evs. snd (AnalyzeDrift_loop cx p unm sys pr i b le lg) = lg @ evs
      \<and> length (filter isChat evs) \<le> 4 - i
      \<and> prefix (sleeps evs) (map (\<lambda>k. b * 2 ^ k) [0..<(if i = 0 then 3 else 4 - i)])
        \<and> (\<forall>ev\<in>set evs. judgeEvent ev)"
proof (induction "4 - i" arbitrary: i b le lg)
  case 0
  then have "i = 4" by simp
  then show ?case
    by (subst AnalyzeDrift_loop.simps) (simp add: maxRetries_def)
next
  case (Suc n)
  then have i3: "i \<le> maxRetries" and n: "n = 4 - (i + 1)" and i4: "i + 1 \<le> 4"
    by (simp_all add: maxRetries_def)
  note IH = Suc.hyps(1)[OF n i4]
  show ?case
  proof (cases "i = 0")
    case True
    let ?lg2 = "lg @ [EvChat sys pr]"
    have step: "\<And>le'. \<exists>evs. snd (AnalyzeDrift_loop cx p unm sys pr (0 + 1) b le' ?lg2) = lg @ evs
        \<and> length (filter isChat evs) \<le> 4
        \<and> prefix (sleeps evs) (map (\<lambda>k. b * 2 ^ k) [0..<3])
        \<and> (\<forall>ev\<in>set evs. judgeEvent ev)"
    proof -
      fix le'
      from IH[of b le' ?lg2] True obtain evs where
        e: "snd (AnalyzeDrift_loop cx p unm sys pr (0 + 1) b le' ?lg2) = ?lg2 @ evs"
        "length (filter isChat evs) \<le> 3"
        "prefix (sleeps evs) (map (\<lambda>k. b * 2 ^ k) [0..<3])
        \<and> (\<forall>ev\<in>set evs. judgeEvent ev)"
        by auto
      show "\<exists>evs. snd (AnalyzeDrift_loop cx p unm sys pr (0 + 1) b le' ?lg2) = lg @ evs
        \<and> length (filter isChat evs) \<le> 4
        \<and> prefix (sleeps evs) (map (\<lambda>k. b * 2 ^ k) [0..<3])
        \<and> (\<forall>ev\<in>set evs. judgeEvent ev)"
        by (rule exI[of _ "EvChat sys pr # evs"]) (use e in \<open>simp add: isChat_def judgeEvent_def\<close>)
    qed
    have here: "\<exists>evs. ?lg2 = lg @ evs \<and> length (filter isChat evs) \<le> 4
        \<and> prefix (sleeps evs) (map (\<lambda>k. b * 2 ^ k) [0..<3])
        \<and> (\<forall>ev\<in>set evs. judgeEvent ev)"
      by (rule exI[of _ "[EvChat sys pr]"]) (simp add: isChat_def judgeEvent_def)
    show ?thesis
      using True step here
      by (subst AnalyzeDrift_loop.simps)
         (simp add: maxRetries_def Let_def split: sum.splits prod.splits option.splits)
  next
    case False
    show ?thesis
    proof (cases "cx lg")
      case (Some e)
      then show ?thesis using False i3
        by (subst AnalyzeDrift_loop.simps) simp
    next
      case None
      let ?lg1 = "lg @ [EvSleep b]"
      let ?lg2 = "?lg1 @ [EvChat sys pr]"
      have m: "map (\<lambda>k. b * 2 ^ k) [0..<4 - i] = b # map (\<lambda>k. (b * 2) * 2 ^ k) [0..<n]"
        using upt_shift[of b n] Suc.hyps(2) by simp
      have step: "\<And>le'. \<exists>evs. snd (AnalyzeDrift_loop cx p unm sys pr (i + 1) (b * 2) le' ?lg2) = lg @ evs
        \<and> length (filter isChat evs) \<le> 4 - i
        \<and> prefix (sleeps evs) (map (\<lambda>k. b * 2 ^ k) [0..<4 - i])
        \<and> (\<forall>ev\<in>set evs. judgeEvent ev)"
      proof -
        fix le'
        from IH[of "b * 2" le' ?lg2] obtain evs where
          e: "snd (AnalyzeDrift_loop cx p unm sys pr (i + 1) (b * 2) le' ?lg2) = ?lg2 @ evs"
          "length (filter isChat evs) \<le> 4 - (i + 1)"
          "prefix (sleeps evs) (map (\<lambda>k. (b * 2) * 2 ^ k) [0..<4 - (i + 1)])
        \<and> (\<forall>ev\<in>set evs. judgeEvent ev)"
          by auto
        show "\<exists>evs. snd (AnalyzeDrift_loop cx p unm sys pr (i + 1) (b * 2) le' ?lg2) = lg @ evs
          \<and> length (filter isChat evs) \<le> 4 - i
          \<and> prefix (sleeps evs) (map (\<lambda>k. b * 2 ^ k) [0..<4 - i])
        \<and> (\<forall>ev\<in>set evs. judgeEvent ev)"
          apply (rule exI[of _ "EvSleep b # EvChat sys pr # evs"])
          using e n i4 m by (simp add: isChat_def judgeEvent_def)
      qed
      have here: "\<exists>evs. ?lg2 = lg @ evs \<and> length (filter isChat evs) \<le> 4 - i
        \<and> prefix (sleeps evs) (map (\<lambda>k. b * 2 ^ k) [0..<4 - i])
        \<and> (\<forall>ev\<in>set evs. judgeEvent ev)"
        apply (rule exI[of _ "[EvSleep b, EvChat sys pr]"])
        using m i4 by (simp add: isChat_def judgeEvent_def)
      show ?thesis
        using False None i3 step here
        by (subst AnalyzeDrift_loop.simps)
           (simp add: Let_def split: sum.splits prod.splits option.splits)
    qed
  qed
qed






subsection \<open>The similarity search\<close>




























subsection \<open>The result cache\<close>

lemma Get_after_Put:
  assumes "Put join mar c fs key v = (None, fs')" and "mar v = Inr data"
    and "unm data zeroResult = (None, v')"
  shows "Get join unm c fs' key = (Some v', True, None)"
  using assms
  by (auto simp: Put_def Get_def WriteFile_def Let_def split: option.splits)

lemma Get_unknown:
  "files fs (join (Dir c) (key @ ''.json'')) = None \<Longrightarrow> Get join unm c fs key = (None, False, None)"
  by (simp add: Get_def)

lemma Get_corrupt:
  "files fs (join (Dir c) (key @ ''.json'')) = Some (File data) \<Longrightarrow> unm data zeroResult = (Some e, r)
   \<Longrightarrow> Get join unm c fs key = (None, False, Some e)"
  by (simp add: Get_def)

text \<open>
  C7, as amended. A \<open>Put\<close> that succeeds, followed by \<open>Get\<close> of the same
  fingerprint, returns the verdict and \<open>found = true\<close>, whenever the decoder reads
  back what the encoder wrote. \<open>Get\<close> of a fingerprint with no stored entry returns
  \<open>found = false\<close> and no error. \<open>Get\<close> of a stored entry that does not decode
  returns \<open>found = false\<close> together with the decoder's error; the engine's lookup
  takes a cached verdict only when there is no error, so that for the engine the
  damaged entry is a miss, as the missing one is.
\<close>

theorem Cache_roundtrip:
  "(Put join mar c fs key v = (None, fs') \<and> mar v = Inr data \<and> unm data zeroResult = (None, v)
      \<longrightarrow> Get join unm c fs' key = (Some v, True, None))
   \<and> (files fs (join (Dir c) (key @ ''.json'')) = None
      \<longrightarrow> Get join unm c fs key = (None, False, None)
        \<and> cacheLookup join unm (Some c) fs key = None)
   \<and> (files fs (join (Dir c) (key @ ''.json'')) = Some (File data') \<and> unm data' zeroResult = (Some e, r)
      \<longrightarrow> Get join unm c fs key = (None, False, Some e)
        \<and> cacheLookup join unm (Some c) fs key = None)"
  using Get_after_Put[of join mar c fs key v fs' data unm v]
  by (simp add: Get_unknown Get_corrupt cacheLookup_def)

lemma put_ex:
  "Put slashJoin twoMarshal cacheEx emptyFs ''k'' pythonVerdict =
     (None, emptyFs\<lparr>files := (files emptyFs)(''.archguard/cache/k.json'' \<mapsto> File violationResponse)\<rparr>)"
  by (simp add: Put_def twoMarshal_def pythonVerdict_def WriteFile_def emptyFs_def slashJoin_def cacheEx_def)

theorem Cache_roundtrip_witness:
  "Put slashJoin twoMarshal cacheEx emptyFs ''k'' pythonVerdict =
     (None, emptyFs\<lparr>files := (files emptyFs)(''.archguard/cache/k.json'' \<mapsto> File violationResponse)\<rparr>)
   \<and> Get slashJoin strictUnmarshal cacheEx
        (emptyFs\<lparr>files := (files emptyFs)(''.archguard/cache/k.json'' \<mapsto> File violationResponse)\<rparr>) ''k''
       = (Some pythonVerdict, True, None)
   \<and> Get slashJoin strictUnmarshal cacheEx emptyFs ''k'' = (None, False, None)
   \<and> cacheLookup slashJoin strictUnmarshal (Some cacheEx) emptyFs ''k'' = None
   \<and> Get slashJoin strictUnmarshal cacheEx damagedFs ''k'' = (None, False, Some ''invalid character'')
   \<and> cacheLookup slashJoin strictUnmarshal (Some cacheEx) damagedFs ''k'' = None"
proof -
  have ne: "''{'' \<noteq> okResponse" "''{'' \<noteq> violationResponse"
    by (simp_all add: okResponse_def violationResponse_def)
  have 1: "Get slashJoin strictUnmarshal cacheEx
        (emptyFs\<lparr>files := (files emptyFs)(''.archguard/cache/k.json'' \<mapsto> File violationResponse)\<rparr>) ''k''
       = (Some pythonVerdict, True, None)"
    using Cache_roundtrip[of slashJoin twoMarshal cacheEx emptyFs "''k''" pythonVerdict
        "emptyFs\<lparr>files := (files emptyFs)(''.archguard/cache/k.json'' \<mapsto> File violationResponse)\<rparr>"
        violationResponse strictUnmarshal] put_ex
    by (simp add: twoMarshal_def pythonVerdict_def strictUnmarshal_def okResponse_def violationResponse_def)
  have 2: "Get slashJoin strictUnmarshal cacheEx emptyFs ''k'' = (None, False, None)
     \<and> cacheLookup slashJoin strictUnmarshal (Some cacheEx) emptyFs ''k'' = None"
    using Cache_roundtrip[of slashJoin _ cacheEx emptyFs "''k''" _ _ _ strictUnmarshal]
    by (simp add: emptyFs_def)
  have 3: "Get slashJoin strictUnmarshal cacheEx damagedFs ''k'' = (None, False, Some ''invalid character'')
   \<and> cacheLookup slashJoin strictUnmarshal (Some cacheEx) damagedFs ''k'' = None"
    using Cache_roundtrip[of slashJoin _ cacheEx damagedFs "''k''" _ _ _ strictUnmarshal "''{''"
        "''invalid character''" zeroResult] ne
    by (simp add: damagedFs_def slashJoin_def cacheEx_def strictUnmarshal_def)
  from put_ex 1 2 3 show ?thesis by blast
qed

text \<open>
  C7 as stated fails: on a damaged entry \<open>Get\<close> hands the decoder's error to its
  caller, which it does not on an unknown fingerprint.
\<close>

theorem Cache_corrupt_counterexample:
  "Get slashJoin strictUnmarshal cacheEx damagedFs ''k'' = (None, False, Some ''invalid character'')
   \<and> Get slashJoin strictUnmarshal cacheEx emptyFs ''k'' = (None, False, None)
   \<and> Get slashJoin strictUnmarshal cacheEx damagedFs ''k'' \<noteq> Get slashJoin strictUnmarshal cacheEx emptyFs ''k''"
proof -
  have ne: "''{'' \<noteq> okResponse" "''{'' \<noteq> violationResponse"
    by (simp_all add: okResponse_def violationResponse_def)
  have 1: "Get slashJoin strictUnmarshal cacheEx damagedFs ''k'' = (None, False, Some ''invalid character'')"
    using ne by (simp add: Get_def damagedFs_def slashJoin_def cacheEx_def strictUnmarshal_def)
  have 2: "Get slashJoin strictUnmarshal cacheEx emptyFs ''k'' = (None, False, None)"
    by (simp add: Get_def emptyFs_def)
  from 1 2 show ?thesis by simp
qed







subsection \<open>The token budget\<close>

lemma tokEx: "getTokenizer stdlibEx e = Inr byteTokenizer"
  by (simp add: getTokenizer_def stdlibEx_def Let_def)

lemma byteTokenizer_take:
  "Decode byteTokenizer (take n (Encode byteTokenizer s)) = take n s"
  "length (Encode byteTokenizer s) = length s"
  by (simp_all add: byteTokenizer_def take_map comp_def)



lemma fetch_full_ex:
  "fetchContext stdlibEx
     (engineEx storeOne violationChat (mockContent [(''service.py'', ''// content ignored by mock'')]) 0 False)
     ''service.py'' state0 =
   (Return (''// content ignored by mock'', ''full'', None),
    state0\<lparr>events := [EvGetContent ''service.py'']\<rparr>)"
  by (simp add: fetchContext_def tokEx engineEx_def configEx_def mockContent_def Let_def
      logEvent_def state0_def byteTokenizer_take)






subsection \<open>The loop over the hits of a file\<close>

lemma AnalyzeDrift_events:
  "\<exists>evs. snd (AnalyzeDrift cx p unm a c f s lg) = lg @ evs
     \<and> length (filter isChat evs) \<le> 4 \<and> (\<forall>ev\<in>set evs. judgeEvent ev)"
  using loop_trace[of 0 cx p unm s "GetAnalyzeDriftPrompt a c f" "2 * Second" None lg]
  by (auto simp: AnalyzeDrift_def)

lemma judgeEvent_filters:
  assumes "\<forall>ev\<in>set evs. judgeEvent ev"
  shows "filter isJudge evs = []" "filter isEmbed evs = []" "filter isSearch evs = []"
proof -
  have "\<And>ev. judgeEvent ev \<Longrightarrow> \<not> isJudge ev \<and> \<not> isEmbed ev \<and> \<not> isSearch ev"
    by (auto simp: judgeEvent_def isJudge_def isEmbed_def isSearch_def split: event.splits)
  with assms show "filter isJudge evs = []" "filter isEmbed evs = []" "filter isSearch evs = []"
    by (auto simp: filter_empty_conv)
qed

lemma stepsBy_refl: "stepsBy 0 0 acc acc"
  by (cases acc) (auto simp: stepsBy_def)

lemma stepsBy_trans: "stepsBy j v a b \<Longrightarrow> stepsBy k w b c \<Longrightarrow> stepsBy (j + k) (v + w) a c"
  by (cases a; cases b; cases c) (clarsimp simp: stepsBy_def)

lemma stepsBy_mono: "stepsBy j v a b \<Longrightarrow> j \<le> k \<Longrightarrow> v \<le> w \<Longrightarrow> stepsBy k w a b"
  by (cases a; cases b) (clarsimp simp: stepsBy_def)

lemma reportVerdict_step: "stepsBy 0 1 (sb, lv, st) (reportVerdict content adr res (sb, lv, st))"
  by (auto simp: reportVerdict_def stepsBy_def violationLines_def isViolationLine_def)

lemma storeVerdict_step: "stepsBy 0 0 (sb, lv, st) (sb, lv, storeVerdict L e k res st)"
proof (cases "Cache e")
  case None
  then show ?thesis by (simp add: storeVerdict_def stepsBy_refl)
next
  case (Some c)
  obtain perr fs' where p: "Put (filepathJoin L) (jsonMarshal L) c (disk st) k res = (perr, fs')"
    by (cases "Put (filepathJoin L) (jsonMarshal L) c (disk st) k res") blast
  have ev: "\<not> isJudge (EvCachePut k)" "\<not> isChat (EvCachePut k)"
    "\<not> isEmbed (EvCachePut k)" "\<not> isSearch (EvCachePut k)"
    by (simp_all add: isJudge_def isChat_def isEmbed_def isSearch_def)
  have vl: "\<And>err. violationLines (stdout st @ [LLogCacheFailed err]) = violationLines (stdout st)"
    by (simp add: violationLines_def isViolationLine_def)
  show ?thesis
  proof (cases perr)
    case None
    with Some p ev show ?thesis
      by (simp add: storeVerdict_def stepsBy_def logEvent_def Let_def)
  next
    case (Some err)
    with \<open>Cache e = Some c\<close> p ev vl show ?thesis
      by (simp add: storeVerdict_def stepsBy_def logEvent_def Log_def Let_def)
  qed
qed

lemma checkHit_step: "stepsBy 1 1 (sb, lv, st) (checkHit cx L e file content hit (sb, lv, st))"
proof -
  define adr where "adr = ADRs (Store e) ! ADR hit"
  define header where "header = (if length content > 2000 then take 2000 content else content)"
  define systemPrompt where "systemPrompt =
     (if SystemPrompt (LLM (Config e)) = [] then DefaultSystemPrompt else SystemPrompt (LLM (Config e)))"
  define cacheKey where "cacheKey = ComputeAnalysisKey (sha256Sum L) (LLMConfig.Model (LLM (Config e)))
                                  (ADR.Content adr) content systemPrompt ChatPrompt"
  define res0 where "res0 = cacheLookup (filepathJoin L) (jsonUnmarshal L) (Cache e) (disk st) cacheKey"
  define st1 where "st1 = (if Cache e \<noteq> None then logEvent st (EvCacheGet cacheKey) else st)"
  define sb1 where "sb1 = sb @ (if Debug e then [LChecking (Title adr) (Score hit)] else [])"
  define sb2 where "sb2 = sb1 @ (if res0 \<noteq> None \<and> Debug e then [LCacheHit (Title adr)] else [])"
  define sb3 where "sb3 = sb2 @ (if Debug e then [LCacheMiss] else [])"
  define st2 where "st2 = logEvent st1 (EvJudge (ID adr))"
  note defs = adr_def header_def systemPrompt_def cacheKey_def res0_def st1_def sb1_def sb2_def
    sb3_def st2_def
  have pre: "stepsBy 0 0 (sb, lv, st) (sb2, lv, st1)"
    by (auto simp: stepsBy_def sb2_def sb1_def st1_def logEvent_def violationLines_def
        isViolationLine_def isJudge_def isChat_def isEmbed_def isSearch_def)
  show ?thesis
  proof (cases "Scope adr \<noteq> [] \<and> \<not> matchGlob L (Scope adr) file")
    case True
    then have "checkHit cx L e file content hit (sb, lv, st) = (sb, lv, st)"
      by (simp add: checkHit_def adr_def Let_def)
    then show ?thesis
      using stepsBy_mono[OF stepsBy_refl, of 1 1 "(sb, lv, st)"] by simp
  next
    case False
    then have inscope: "Scope adr \<noteq> [] \<Longrightarrow> matchGlob L (Scope adr) file"
      by blast
    show ?thesis
    proof (cases "Contains header (''archguard-ignore: '' @ ID adr)")
      case True
      then have "checkHit cx L e file content hit (sb, lv, st) =
          (sb @ (if Debug e then [LSkipping (Title adr)] else []), lv, st)"
        using inscope[unfolded adr_def]
        by (simp add: checkHit_def adr_def header_def Let_def split del: if_split
            cong: conj_cong if_cong)
      then show ?thesis
        by (auto simp: stepsBy_def violationLines_def isViolationLine_def)
    next
      case notsup: False
      show ?thesis
      proof (cases res0)
        case (Some res)
        have "checkHit cx L e file content hit (sb, lv, st) = reportVerdict content adr res (sb2, lv, st1)"
          using notsup Some inscope[unfolded adr_def]
          by (simp add: checkHit_def Let_def defs split del: if_split cong: conj_cong if_cong)
        then show ?thesis
          using stepsBy_mono[OF stepsBy_trans[OF pre reportVerdict_step[of sb2 lv st1 content adr res]],
              of 1 1]
          by simp
      next
        case None
        obtain r lg' where ad: "AnalyzeDrift cx (Chat (Provider e)) (jsonUnmarshal L)
              (ADR.Content adr) content file systemPrompt (events st2) = (r, lg')"
          by (cases "AnalyzeDrift cx (Chat (Provider e)) (jsonUnmarshal L)
              (ADR.Content adr) content file systemPrompt (events st2)") blast
        from AnalyzeDrift_events[of cx "Chat (Provider e)" "jsonUnmarshal L" "ADR.Content adr" content
            "file" systemPrompt "events st2"] ad
        obtain evs where evs: "lg' = events st2 @ evs" "length (filter isChat evs) \<le> 4"
          "\<forall>ev\<in>set evs. judgeEvent ev" by auto
        note nf = judgeEvent_filters[OF evs(3)]
        have judged: "stepsBy 1 0 (sb2, lv, st1) (sb3 @ extra, lv, st2\<lparr>events := lg'\<rparr>)"
          if "violationLines extra = 0" for extra
          using that evs(1,2) nf
          by (auto simp: stepsBy_def sb3_def st2_def logEvent_def violationLines_def
              isViolationLine_def isJudge_def isChat_def isEmbed_def isSearch_def)
        show ?thesis
        proof (cases r)
          case (Inl err)
          have "checkHit cx L e file content hit (sb, lv, st) =
                (sb3 @ [LWarningLLM err], lv, st2\<lparr>events := lg'\<rparr>)"
            using notsup None ad Inl inscope[unfolded adr_def]
            by (simp add: checkHit_def Let_def defs split del: if_split cong: conj_cong if_cong)
          moreover have "violationLines [LWarningLLM err] = 0"
            by (simp add: violationLines_def isViolationLine_def)
          ultimately show ?thesis
            using stepsBy_mono[OF stepsBy_trans[OF pre judged[of "[LWarningLLM err]"]], of 1 1]
            by simp
        next
          case (Inr res)
          define st3 where "st3 = st2\<lparr>events := lg'\<rparr>"
          define st4 where "st4 = storeVerdict L e cacheKey res st3"
          have eq: "checkHit cx L e file content hit (sb, lv, st) =
                reportVerdict content adr res (sb3, lv, st4)"
            using notsup None ad Inr inscope[unfolded adr_def]
            by (simp add: checkHit_def Let_def defs st3_def st4_def split del: if_split
                cong: conj_cong if_cong)
          have put: "stepsBy 0 0 (sb3, lv, st3) (sb3, lv, st4)"
            unfolding st4_def by (rule storeVerdict_step)
          have j: "stepsBy 1 0 (sb2, lv, st1) (sb3, lv, st3)"
            using judged[of "[]"] by (simp add: st3_def violationLines_def)
          have "stepsBy (0 + 1 + (0 + 0)) (0 + 0 + (0 + 1)) (sb, lv, st)
                  (reportVerdict content adr res (sb3, lv, st4))"
            by (rule stepsBy_trans[OF stepsBy_trans[OF pre j]
                  stepsBy_trans[OF put reportVerdict_step[of sb3 lv st4 content adr res]]])
          then show ?thesis using eq by simp
        qed
      qed
    qed
  qed
qed

lemma checkHits_step:
  "stepsBy (length hits) (length hits) acc (checkHits cx L e file content hits acc)"
proof (induction hits arbitrary: acc)
  case Nil
  then show ?case by (simp add: stepsBy_refl)
next
  case (Cons hit hits)
  obtain sb lv st where acc: "acc = (sb, lv, st)" by (cases acc) blast
  have "stepsBy (1 + length hits) (1 + length hits) acc
          (checkHits cx L e file content hits (checkHit cx L e file content hit acc))"
    using stepsBy_trans[OF checkHit_step[of sb lv st cx L e "file" content hit]
        Cons.IH[of "checkHit cx L e file content hit (sb, lv, st)"]] acc
    by simp
  then show ?case by simp
qed

subsection \<open>One worker, and the run\<close>

lemma Search_three: "Search F srt s q th 3 = Inr hits \<Longrightarrow> length hits \<le> 3"
  by (auto simp: Search_def Let_def split: if_splits)

lemma Search_never_panics_three: "\<exists>hits. Search F srt s q th 3 = Inr hits"
  by (simp add: Search_def Let_def)

lemma Log_keeps: "events (Log e l st) = events st" "disk (Log e l st) = disk st"
  by (simp_all add: Log_def)

lemma fetchContext_events:
  assumes "fetchContext L e path st = (r, st1)"
  shows "(events st1 = events st @ [EvGetContent path]
          \<or> events st1 = events st @ [EvGetContent path, EvGetDiff path])
         \<and> violationLines (stdout st1) = violationLines (stdout st)"
proof (cases "GetContent (Content e) (events st) path")
  case (Inl err)
  with assms show ?thesis by (auto simp: fetchContext_def Let_def logEvent_def)
next
  case (Inr fullContent)
  show ?thesis
  proof (cases "getTokenizer L e")
    case (Inl err)
    with Inr assms show ?thesis
      by (auto simp: fetchContext_def Let_def logEvent_def Log_def violationLines_def
          isViolationLine_def split: if_splits)
  next
    case tk: (Inr tkm)
    with Inr assms show ?thesis
      by (auto simp: fetchContext_def Let_def logEvent_def split: if_splits sum.splits)
  qed
qed

text \<open>What one worker does to the log and to the output.\<close>

lemma violationLines_append: "violationLines (a @ b) = violationLines a + violationLines b"
  by (simp add: violationLines_def)

lemma violationLines_other:
  "violationLines [LErrorReading f er] = 0" "violationLines [LWarnOpen f] = 0"
  "violationLines [LErrorEmbedding f er] = 0" "violationLines [LNoRelevantADRs] = 0"
  "violationLines [LAnalyzing f] = 0" "violationLines [LContextMode m] = 0"
  "violationLines [] = 0"
  by (simp_all add: violationLines_def isViolationLine_def)

lemma flush_simps:
  "events (flush st sb) = events st"
  "violationLines (stdout (flush st sb)) = violationLines (stdout st) + violationLines sb"
  by (simp_all add: flush_def violationLines_def)

lemma worker_step:
  assumes w: "worker cx L e file st = Return (n, st')"
  shows "\<exists>evs. events st' = events st @ evs
           \<and> length (filter isJudge evs) \<le> 3
           \<and> length (filter isChat evs) \<le> 12
           \<and> length (filter isEmbed evs) \<le> 1
           \<and> length (filter isSearch evs) \<le> 1
           \<and> 0 \<le> n \<and> n \<le> 3
           \<and> violationLines (stdout st') = violationLines (stdout st) + n"
proof -
  define sb0 where "sb0 = (if Debug e then [LAnalyzing file] else [])"
  obtain r st1 where fc: "fetchContext L e file st = (r, st1)"
    by (cases "fetchContext L e file st") blast
  from fetchContext_events[OF fc] obtain evs1 where
    e1: "events st1 = events st @ evs1"
      "filter isJudge evs1 = []" "filter isChat evs1 = []" "filter isEmbed evs1 = []"
      "filter isSearch evs1 = []"
    and v1: "violationLines (stdout st1) = violationLines (stdout st)"
    by (auto simp: isJudge_def isChat_def isEmbed_def isSearch_def)
  have nv0: "violationLines sb0 = 0"
    by (simp add: sb0_def violationLines_other)
  have early: ?thesis if "n = 0" "st' = flush st1 sb" "violationLines sb = 0" for sb
    using that e1 v1 by (auto simp: flush_simps)
  show ?thesis
  proof (cases r)
    case (Panic m)
    with w fc show ?thesis by (simp add: worker_def)
  next
    case (Return t)
    obtain content diffMode err where t: "t = (content, diffMode, err)" by (cases t) blast
    show ?thesis
    proof (cases err)
      case (Some er)
      with w fc Return t have "n = 0" "st' = flush st1 (sb0 @ [LErrorReading file er])"
        by (auto simp: worker_def sb0_def)
      then show ?thesis
        using early[of "sb0 @ [LErrorReading file er]"] nv0
        by (simp add: violationLines_append violationLines_other)
    next
      case None
      define sb1 where "sb1 = sb0 @ (if Debug e then [LContextMode diffMode] else [])"
      have nv1: "violationLines sb1 = 0"
        using nv0 by (simp add: sb1_def violationLines_append violationLines_other)
      show ?thesis
      proof (cases "diffMode = ''truncated'' \<and> CI e")
        case True
        with w fc Return t None have "n = 0" "st' = flush st1 (sb1 @ [LWarnOpen file])"
          by (auto simp: worker_def sb0_def sb1_def)
        then show ?thesis
          using early[of "sb1 @ [LWarnOpen file]"] nv1
          by (simp add: violationLines_append violationLines_other)
      next
        case False
        then have go: "diffMode = ''truncated'' \<Longrightarrow> \<not> CI e" by blast
        define st2 where "st2 = logEvent st1 (EvGetDiff file)"
        define d0 where "d0 = (case GetDiff (Content e) (events st1) file of
                       Inl err \<Rightarrow> content
                     | Inr d \<Rightarrow> if d = [] then content else d)"
        define d1 where "d1 = (if length d0 > 6000 then take 6000 d0 else d0)"
        define st3 where "st3 = logEvent st2 (EvEmbed d1)"
        define st4 where "st4 = logEvent st3 EvSearch"
        note defs = sb0_def sb1_def st2_def d0_def d1_def st3_def st4_def
        have e3: "events st3 = events st @ (evs1 @ [EvGetDiff file, EvEmbed d1])"
          by (simp add: st3_def st2_def logEvent_def e1)
        have e4: "events st4 = events st @ (evs1 @ [EvGetDiff file, EvEmbed d1, EvSearch])"
          by (simp add: st4_def st3_def st2_def logEvent_def e1)
        have v4: "violationLines (stdout st4) = violationLines (stdout st)"
          "violationLines (stdout st3) = violationLines (stdout st)"
          by (simp_all add: st4_def st3_def st2_def logEvent_def v1)
        have cnt: "\<not> isJudge (EvGetDiff file)" "\<not> isJudge (EvEmbed d1)" "\<not> isJudge EvSearch"
          "\<not> isChat (EvGetDiff file)" "\<not> isChat (EvEmbed d1)" "\<not> isChat EvSearch"
          "\<not> isEmbed (EvGetDiff file)" "isEmbed (EvEmbed d1)" "\<not> isEmbed EvSearch"
          "\<not> isSearch (EvGetDiff file)" "\<not> isSearch (EvEmbed d1)" "isSearch EvSearch"
          by (simp_all add: isJudge_def isChat_def isEmbed_def isSearch_def)
        show ?thesis
        proof (cases "CreateEmbedding (Provider e) (events st2) d1")
          case (Inl er)
          with w fc Return t None go have "n = 0" "st' = flush st3 (sb1 @ [LErrorEmbedding file er])"
            by (simp_all add: worker_def Let_def defs split del: if_split cong: conj_cong if_cong)
          then show ?thesis
            using e3 v4 nv1 e1 cnt
            by (auto simp: flush_simps violationLines_append violationLines_other)
        next
          case emb: (Inr embedding)
          obtain hits where se: "Search (arith L) (sortSlice L) (Store e) embedding
                             (SimilarityThreshold (VectorStore (Config e))) 3 = Inr hits"
            using Search_never_panics_three by blast
          have len: "length hits \<le> 3" using Search_three[OF se] .
          show ?thesis
          proof (cases "hits = []")
            case True
            with w fc Return t None go emb se
            have "n = 0" "st' = flush st4 (sb1 @ (if Debug e then [LNoRelevantADRs] else []))"
              by (simp_all add: worker_def Let_def defs split del: if_split cong: conj_cong if_cong)
            then show ?thesis
              using e4 v4 nv1 e1 cnt
              by (auto simp: flush_simps violationLines_append violationLines_other)
          next
            case False
            obtain sb lv st5 where ch: "checkHits cx L e file content hits (sb1, 0, st4) = (sb, lv, st5)"
              by (cases "checkHits cx L e file content hits (sb1, 0, st4)") blast
            from w fc Return t None go emb se False ch
            have res: "n = lv" "st' = flush st5 sb"
              by (simp_all add: worker_def Let_def defs split del: if_split cong: conj_cong if_cong)
            from checkHits_step[of hits "(sb1, 0, st4)" cx L e "file" content] ch
            obtain evs where c: "events st5 = events st4 @ evs"
              "length (filter isJudge evs) \<le> length hits"
              "length (filter isChat evs) \<le> 4 * length hits"
              "filter isEmbed evs = []" "filter isSearch evs = []"
              "0 \<le> lv" "lv \<le> int (length hits)"
              "violationLines sb = violationLines sb1 + lv"
              "violationLines (stdout st5) = violationLines (stdout st4)"
              by (auto simp: stepsBy_def)
            show ?thesis
              apply (rule exI[of _ "evs1 @ [EvGetDiff file, EvEmbed d1, EvSearch] @ evs"])
              using res c e4 v4 nv1 e1 cnt len
              by (simp add: flush_simps)
          qed
        qed
      qed
    qed
  qed
qed




subsection \<open>The scenarios of the tests\<close>

lemma clean_violation: "CleanJSON violationResponse = violationResponse"
  by code_simp

lemma not_suppressed_ex:
  "\<not> Contains ''// content ignored by mock'' (''archguard-ignore: '' @ i)"
  by (simp add: Contains_def)

lemma judge_violation:
  "AnalyzeDrift cx violationChat strictUnmarshal a c f s lg =
     (Inr pythonVerdict, lg @ [EvChat s (GetAnalyzeDriftPrompt a c f)])"
proof -
  have "violationResponse \<noteq> okResponse"
    by (simp add: violationResponse_def okResponse_def)
  then show ?thesis
    by (simp add: AnalyzeDrift_def loop_first violationChat_def clean_violation strictUnmarshal_def)
qed


lemma line_number_ex: "findLineNumber ''// content ignored by mock'' ''import python_library'' = 0"
  by (simp add: findLineNumber_def)

lemma drift_fetch:
  "fetchContext stdlibEx (driftEngine store chatFunc) ''service.py'' st =
   (Return (''// content ignored by mock'', ''full'', None), logEvent st (EvGetContent ''service.py''))"
  by (simp add: fetchContext_def tokEx driftEngine_def engineEx_def configEx_def mockContent_def
      Let_def byteTokenizer_take)

lemma drift_fields:
  "Debug (driftEngine store chatFunc) = False"
  "CI (driftEngine store chatFunc) = False"
  "Cache (driftEngine store chatFunc) = None"
  "Store (driftEngine store chatFunc) = store"
  "Chat (Provider (driftEngine store chatFunc)) = chatFunc"
  "SystemPrompt (LLM (Config (driftEngine store chatFunc))) = []"
  "SimilarityThreshold (VectorStore (Config (driftEngine store chatFunc))) = Fin 0"
  "ExcludePatterns (Analysis (Config (driftEngine store chatFunc))) = []"
  "GetDiff (Content (driftEngine store chatFunc)) lg ''service.py'' = Inr ''// content ignored by mock''"
  "GetFiles (Content (driftEngine store chatFunc)) lg = Inr [''service.py'']"
  "CreateEmbedding (Provider (driftEngine store chatFunc)) lg text = Inr [Fin 1, Fin 0]"
  by (simp_all add: driftEngine_def engineEx_def configEx_def mockContent_def mockProvider_def)

lemma stdlibEx_fields:
  "jsonUnmarshal stdlibEx = strictUnmarshal"
  "arith stdlibEx = exactFpu"
  "sortSlice stdlibEx = insertionSort"
  by (simp_all add: stdlibEx_def)

lemma adrEx_fields:
  "Scope (adrEx i t v) = []" "ID (adrEx i t v) = i" "Title (adrEx i t v) = t"
  "ADR.Content (adrEx i t v) = ''All services must be Go.''"
  by (simp_all add: adrEx_def)

text \<open>One step of the loop in the scenario, for a hit whose record is an example record.\<close>

lemma drift_checkHit_violation:
  assumes "ADRs store ! ADR hit = adrEx i t v"
  shows "checkHit cx stdlibEx (driftEngine store violationChat) ''service.py''
           ''// content ignored by mock'' hit (sb, lv, st) =
         (sb @ [LViolation t 0, LReasoning ''Python is not allowed.'', LCode ''import python_library''],
          lv + 1,
          st\<lparr>events := events st @ [EvJudge i, EvChat DefaultSystemPrompt
              (GetAnalyzeDriftPrompt ''All services must be Go.'' ''// content ignored by mock''
                 ''service.py'')]\<rparr>)"
  using assms
  by (simp add: checkHit_def Let_def drift_fields stdlibEx_fields adrEx_fields not_suppressed_ex[simplified]
      cacheLookup_def judge_violation logEvent_def storeVerdict_def reportVerdict_def
      pythonVerdict_def line_number_ex)


lemma search_four:
  "Search exactFpu insertionSort storeFour [Fin 1, Fin 0] (Fin 0) 3 =
     Inr [\<lparr>ADR = 0, Score = Fin 1\<rparr>, \<lparr>ADR = 1, Score = Fin 1\<rparr>, \<lparr>ADR = 2, Score = Fin 1\<rparr>]"
  by (simp add: Search_def storeFour_def adrEx_def cosineSimilarity_def exactFpu_def f_ge_def
      insertionSort_def Let_def numeral_2_eq_2 numeral_3_eq_3)

lemma drift_worker:
  assumes "Search exactFpu insertionSort store [Fin 1, Fin 0] (Fin 0) 3 = Inr hits" and "hits \<noteq> []"
  shows "worker cx stdlibEx (driftEngine store chatFunc) ''service.py'' st =
     (case checkHits cx stdlibEx (driftEngine store chatFunc) ''service.py''
             ''// content ignored by mock'' hits
             ([], 0, st\<lparr>events := events st @
                 [EvGetContent ''service.py'', EvGetDiff ''service.py'',
                  EvEmbed ''// content ignored by mock'', EvSearch]\<rparr>) of
        (sb, localViolations, st5) \<Rightarrow> Return (localViolations, flush st5 sb))"
  using assms
  by (simp add: worker_def drift_fetch drift_fields stdlibEx_fields Let_def logEvent_def)



lemma drift_worker_four:
  "worker cx stdlibEx (driftEngine storeFour violationChat) ''service.py'' state0 =
     Return (3,
       \<lparr>events = [EvGetContent ''service.py'', EvGetDiff ''service.py'',
                  EvEmbed ''// content ignored by mock'', EvSearch,
                  EvJudge ''0001'',
                  EvChat DefaultSystemPrompt
                    (GetAnalyzeDriftPrompt ''All services must be Go.''
                       ''// content ignored by mock'' ''service.py''),
                  EvJudge ''0002'',
                  EvChat DefaultSystemPrompt
                    (GetAnalyzeDriftPrompt ''All services must be Go.''
                       ''// content ignored by mock'' ''service.py''),
                  EvJudge ''0003'',
                  EvChat DefaultSystemPrompt
                    (GetAnalyzeDriftPrompt ''All services must be Go.''
                       ''// content ignored by mock'' ''service.py'')],
        disk = emptyFs,
        stdout = [LViolation ''Use Golang'' 0, LReasoning ''Python is not allowed.'',
                  LCode ''import python_library'',
                  LViolation ''Use Go modules'' 0, LReasoning ''Python is not allowed.'',
                  LCode ''import python_library'',
                  LViolation ''Log in JSON'' 0, LReasoning ''Python is not allowed.'',
                  LCode ''import python_library'']\<rparr>)"
proof -
  have a: "ADRs storeFour ! ADR \<lparr>ADR = 0, Score = Fin 1\<rparr> =
      adrEx ''0001'' ''Use Golang'' [Fin 1, Fin 0]"
    "ADRs storeFour ! ADR \<lparr>ADR = Suc 0, Score = Fin 1\<rparr> =
      adrEx ''0002'' ''Use Go modules'' [Fin 1, Fin 0]"
    "ADRs storeFour ! ADR \<lparr>ADR = 2, Score = Fin 1\<rparr> =
      adrEx ''0003'' ''Log in JSON'' [Fin 1, Fin 0]"
    by (simp_all add: storeFour_def)
  show ?thesis
    by (simp add: drift_worker[OF search_four] drift_checkHit_violation[OF a(1)]
        drift_checkHit_violation[OF a(2)] drift_checkHit_violation[OF a(3)] flush_def state0_def)
qed


subsection \<open>The early skip in CI mode, and the bound on the judgments of a file\<close>

lemma Run_single:
  assumes gf: "GetFiles (Content e) (events st0) = Inr [f]"
    and w: "shouldExclude L e f \<or> (\<exists>st'. worker cx L e f (logEvent st0 EvGetFiles) = Return (0, st'))"
  shows "\<exists>st'. Run cx L e st0 = Return (None, st')"
  using gf w by (auto simp: Run_def Let_def)

text \<open>
  C6. In CI mode, a file whose context resolution yields the mode \<open>truncated\<close> is
  reported with one warning and skipped: its worker returns at once, adds nothing to the
  count of violations and reports none, and after the context resolution the log gains
  no embedding call, no search, no judgment and no provider call. A run over that file
  alone returns no error.
\<close>

theorem CI_truncated_skipped:
  assumes ci: "CI e"
    and fc: "fetchContext L e file st = (Return (content, ''truncated'', None), st1)"
    and sk: "skipped = flush st1 ((if Debug e then [LAnalyzing file] else [])
                @ (if Debug e then [LContextMode ''truncated''] else []) @ [LWarnOpen file])"
  shows "worker cx L e file st = Return (0, skipped)
     \<and> (\<exists>evs. events skipped = events st @ evs
           \<and> filter isEmbed evs = [] \<and> filter isSearch evs = []
           \<and> filter isJudge evs = [] \<and> filter isChat evs = [])
     \<and> violationLines (stdout skipped) = violationLines (stdout st)
     \<and> (GetFiles (Content e) (events st0) = Inr [file] \<and> st = logEvent st0 EvGetFiles
          \<longrightarrow> (\<exists>st'. Run cx L e st0 = Return (None, st')))"
proof -
  have w: "worker cx L e file st = Return (0, skipped)"
    using ci fc sk by (simp add: worker_def)
  from fetchContext_events[OF fc]
  have ev: "\<exists>evs. events skipped = events st @ evs
           \<and> filter isEmbed evs = [] \<and> filter isSearch evs = []
           \<and> filter isJudge evs = [] \<and> filter isChat evs = []"
    and vl: "violationLines (stdout skipped) = violationLines (stdout st)"
    unfolding sk
    by (auto simp: flush_simps violationLines_append violationLines_other isEmbed_def
        isSearch_def isJudge_def isChat_def)
  have run: "GetFiles (Content e) (events st0) = Inr [file] \<and> st = logEvent st0 EvGetFiles
          \<longrightarrow> (\<exists>st'. Run cx L e st0 = Return (None, st'))"
    using Run_single[of e st0 "file" L cx] w by blast
  from w ev vl run show ?thesis by blast
qed

text \<open>
  C10. Whatever the configuration, the search of a worker is called with \<open>topK = 3\<close>:
  it does not panic and returns at most three hits. A worker that returns has made at most
  one search, started at most three judgments (of at most four provider calls each) and
  counted at most three violations.
\<close>

theorem worker_judges_at_most_three:
  "(\<exists>hits. Search F srt s q th 3 = Inr hits \<and> length hits \<le> 3)
   \<and> (worker cx L e file st = Return (n, st') \<longrightarrow>
        (\<exists>evs. events st' = events st @ evs
           \<and> length (filter isSearch evs) \<le> 1
           \<and> length (filter isJudge evs) \<le> 3
           \<and> length (filter isChat evs) \<le> 12
           \<and> n \<le> 3))"
proof -
  have a: "\<exists>hits. Search F srt s q th 3 = Inr hits \<and> length hits \<le> 3"
    using Search_never_panics_three[of F srt s q th] Search_three by blast
  have b: "worker cx L e file st = Return (n, st') \<longrightarrow>
        (\<exists>evs. events st' = events st @ evs
           \<and> length (filter isSearch evs) \<le> 1
           \<and> length (filter isJudge evs) \<le> 3
           \<and> length (filter isChat evs) \<le> 12
           \<and> n \<le> 3)"
    using worker_step[of cx L e "file" st n st'] by blast
  from a b show ?thesis by blast
qed

lemma trunc_fetch:
  "fetchContext stdlibEx
     (engineEx storeOne violationChat (truncationContent ''Line1\<newline>Line2\<newline>Line3'') 8 True)
     ''test.go'' st =
   (Return (''Line1\<newline>'', ''truncated'', None),
    logEvent (logEvent st (EvGetContent ''test.go'')) (EvGetDiff ''test.go''))"
  by (simp add: fetchContext_def tokEx engineEx_def configEx_def truncationContent_def Let_def
      byteTokenizer_take smartTruncate_def)

theorem CI_truncated_skipped_witness:
  "CI (engineEx storeOne violationChat (truncationContent ''Line1\<newline>Line2\<newline>Line3'') 8 True)
   \<and> fetchContext stdlibEx
        (engineEx storeOne violationChat (truncationContent ''Line1\<newline>Line2\<newline>Line3'') 8 True)
        ''test.go'' (logEvent state0 EvGetFiles) =
      (Return (''Line1\<newline>'', ''truncated'', None),
       state0\<lparr>events := [EvGetFiles, EvGetContent ''test.go'', EvGetDiff ''test.go'']\<rparr>)
   \<and> worker neverDone stdlibEx
        (engineEx storeOne violationChat (truncationContent ''Line1\<newline>Line2\<newline>Line3'') 8 True)
        ''test.go'' (logEvent state0 EvGetFiles) =
      Return (0, \<lparr>events = [EvGetFiles, EvGetContent ''test.go'', EvGetDiff ''test.go''],
                  disk = emptyFs, stdout = [LWarnOpen ''test.go'']\<rparr>)
   \<and> (\<exists>st'. Run neverDone stdlibEx
        (engineEx storeOne violationChat (truncationContent ''Line1\<newline>Line2\<newline>Line3'') 8 True)
        state0 = Return (None, st'))"
proof -
  let ?e = "engineEx storeOne violationChat (truncationContent ''Line1\<newline>Line2\<newline>Line3'') 8 True"
  have ci: "CI ?e" by (simp add: engineEx_def)
  have fc: "fetchContext stdlibEx ?e ''test.go'' (logEvent state0 EvGetFiles) =
      (Return (''Line1\<newline>'', ''truncated'', None),
       state0\<lparr>events := [EvGetFiles, EvGetContent ''test.go'', EvGetDiff ''test.go'']\<rparr>)"
    by (simp add: trunc_fetch logEvent_def state0_def)
  have gf: "GetFiles (Content ?e) (events state0) = Inr [''test.go'']"
    by (simp add: engineEx_def truncationContent_def)
  note T = CI_truncated_skipped[OF ci fc refl, of neverDone state0]
  from T gf have "worker neverDone stdlibEx ?e ''test.go'' (logEvent state0 EvGetFiles) =
      Return (0, \<lparr>events = [EvGetFiles, EvGetContent ''test.go'', EvGetDiff ''test.go''],
                  disk = emptyFs, stdout = [LWarnOpen ''test.go'']\<rparr>)"
    and "\<exists>st'. Run neverDone stdlibEx ?e state0 = Return (None, st')"
    by (simp_all add: engineEx_def flush_def state0_def)
  with ci fc show ?thesis by blast
qed

theorem worker_judges_at_most_three_witness:
  "worker neverDone stdlibEx (driftEngine storeFour violationChat) ''service.py'' state0 =
     Return (3,
       \<lparr>events = [EvGetContent ''service.py'', EvGetDiff ''service.py'',
                  EvEmbed ''// content ignored by mock'', EvSearch,
                  EvJudge ''0001'',
                  EvChat DefaultSystemPrompt
                    (GetAnalyzeDriftPrompt ''All services must be Go.''
                       ''// content ignored by mock'' ''service.py''),
                  EvJudge ''0002'',
                  EvChat DefaultSystemPrompt
                    (GetAnalyzeDriftPrompt ''All services must be Go.''
                       ''// content ignored by mock'' ''service.py''),
                  EvJudge ''0003'',
                  EvChat DefaultSystemPrompt
                    (GetAnalyzeDriftPrompt ''All services must be Go.''
                       ''// content ignored by mock'' ''service.py'')],
        disk = emptyFs,
        stdout = [LViolation ''Use Golang'' 0, LReasoning ''Python is not allowed.'',
                  LCode ''import python_library'',
                  LViolation ''Use Go modules'' 0, LReasoning ''Python is not allowed.'',
                  LCode ''import python_library'',
                  LViolation ''Log in JSON'' 0, LReasoning ''Python is not allowed.'',
                  LCode ''import python_library'']\<rparr>)
   \<and> length (ADRs storeFour) = 4
   \<and> (\<exists>evs. [EvGetContent ''service.py'', EvGetDiff ''service.py'',
                  EvEmbed ''// content ignored by mock'', EvSearch,
                  EvJudge ''0001'',
                  EvChat DefaultSystemPrompt
                    (GetAnalyzeDriftPrompt ''All services must be Go.''
                       ''// content ignored by mock'' ''service.py''),
                  EvJudge ''0002'',
                  EvChat DefaultSystemPrompt
                    (GetAnalyzeDriftPrompt ''All services must be Go.''
                       ''// content ignored by mock'' ''service.py''),
                  EvJudge ''0003'',
                  EvChat DefaultSystemPrompt
                    (GetAnalyzeDriftPrompt ''All services must be Go.''
                       ''// content ignored by mock'' ''service.py'')] = events state0 @ evs
           \<and> length (filter isSearch evs) \<le> 1
           \<and> length (filter isJudge evs) \<le> 3
           \<and> length (filter isChat evs) \<le> 12)"
proof -
  let ?S = "\<lparr>events = [EvGetContent ''service.py'', EvGetDiff ''service.py'',
                  EvEmbed ''// content ignored by mock'', EvSearch,
                  EvJudge ''0001'',
                  EvChat DefaultSystemPrompt
                    (GetAnalyzeDriftPrompt ''All services must be Go.''
                       ''// content ignored by mock'' ''service.py''),
                  EvJudge ''0002'',
                  EvChat DefaultSystemPrompt
                    (GetAnalyzeDriftPrompt ''All services must be Go.''
                       ''// content ignored by mock'' ''service.py''),
                  EvJudge ''0003'',
                  EvChat DefaultSystemPrompt
                    (GetAnalyzeDriftPrompt ''All services must be Go.''
                       ''// content ignored by mock'' ''service.py'')],
        disk = emptyFs,
        stdout = [LViolation ''Use Golang'' 0, LReasoning ''Python is not allowed.'',
                  LCode ''import python_library'',
                  LViolation ''Use Go modules'' 0, LReasoning ''Python is not allowed.'',
                  LCode ''import python_library'',
                  LViolation ''Log in JSON'' 0, LReasoning ''Python is not allowed.'',
                  LCode ''import python_library'']\<rparr>"
  have l: "length (ADRs storeFour) = 4" by (simp add: storeFour_def)
  note T = worker_judges_at_most_three[where cx = neverDone and L = stdlibEx
      and e = "driftEngine storeFour violationChat" and ?file = "''service.py''" and st = state0
      and n = 3 and st' = ?S and F = exactFpu and srt = insertionSort and s = storeFour
      and q = "[Fin 1, Fin 0]" and th = "Fin 0"]
  from T drift_worker_four[of neverDone] l show ?thesis by simp
qed

end
